theory Spec2Isabelle
  imports Complex_Main "HOL-Library.Char_ord" "HOL-Library.List_Lexorder" "HOL-Library.Multiset"
    "HOL-Library.Sublist"
begin

chapter \<open>The sync core as functions\<close>

section \<open>JavaScript values used by the sync core\<close>

text \<open>
  Optional properties (\<open>undefined\<close>, \<open>null\<close>) are \<open>None\<close>.  A JavaScript condition tests
  a value for truthiness: a number is truthy when it is not zero, a string when it is not
  empty, an absent value never.
\<close>

datatype jsval = JStr string | JNum real | JArr "string list"

definition truthyNum :: "int option \<Rightarrow> bool" where
  "truthyNum v = (case v of None \<Rightarrow> False | Some n \<Rightarrow> n \<noteq> 0)"

definition truthyReal :: "real option \<Rightarrow> bool" where
  "truthyReal v = (case v of None \<Rightarrow> False | Some n \<Rightarrow> n \<noteq> 0)"

definition truthyStr :: "string option \<Rightarrow> bool" where
  "truthyStr v = (case v of None \<Rightarrow> False | Some s \<Rightarrow> s \<noteq> [])"

text \<open>
  A string is a list of characters with the codes \<open>0\<close> to \<open>255\<close>, read as the code units
  U+0000 to U+00FF.  The white space and line terminators of ECMAScript among them are
  TAB, LF, VT, FF, CR, SPACE and NO-BREAK SPACE (U+00A0); these are what
  \<open>String.prototype.trim\<close> removes at both ends, what \<open>\s\<close> matches in a regular expression
  and what \<open>parseInt\<close> skips at the start.
\<close>

definition isSpace :: "char \<Rightarrow> bool" where
  "isSpace c = (c = CHR 0x20 \<or> c = CHR 0x09 \<or> c = CHR 0x0A \<or> c = CHR 0x0B
     \<or> c = CHR 0x0C \<or> c = CHR 0x0D \<or> c = CHR 0xA0)"

definition trim :: "string \<Rightarrow> string" where
  "trim s = rev (dropWhile isSpace (rev (dropWhile isSpace s)))"

text \<open>\<open>s.split('; ')\<close>: the pieces between occurrences of the two-character separator.\<close>

fun splitSemiSpace :: "string \<Rightarrow> string \<Rightarrow> string list" where
  "splitSemiSpace cur [] = [cur]"
| "splitSemiSpace cur [c] = [cur @ [c]]"
| "splitSemiSpace cur (c # d # cs) =
     (if c = CHR '';'' \<and> d = CHR '' '' then cur # splitSemiSpace [] cs
      else splitSemiSpace (cur @ [c]) (d # cs))"

text \<open>\<open>s.split(';')\<close>.\<close>

fun splitSemi :: "string \<Rightarrow> string \<Rightarrow> string list" where
  "splitSemi cur [] = [cur]"
| "splitSemi cur (c # cs) =
     (if c = CHR '';'' then cur # splitSemi [] cs else splitSemi (cur @ [c]) cs)"

section \<open>Data model (types/work-item.ts, types/ado-api.ts)\<close>

record AdoComment =
  comment_id :: int
  author :: string
  comment_date :: string
  comment_text :: string

record AdoPullRequest =
  pr_id :: int
  pr_title :: string
  pr_status :: string
  pr_url :: string

record AdoMetadata =
  workItemId :: "int option"
  md_url :: "string option"
  md_rev :: "int option"
  lastSyncedAt :: "string option"
  md_state :: "string option"
  md_assignedTo :: "string option"
  comments :: "AdoComment list option"
  linkedPRs :: "AdoPullRequest list option"

text \<open>The scalar and array properties of a \<open>WorkItem\<close>; \<open>_ado\<close> and \<open>children\<close> follow below.\<close>

record WorkItemProps =
  wtype :: string
  wid :: string
  title :: string
  description :: "string option"
  state :: "string option"
  priority :: "real option"
  tags :: "string list option"
  assignedTo :: "string option"
  areaPath :: "string option"
  iterationPath :: "string option"
  valueArea :: "string option"
  businessValue :: "real option"
  targetDate :: "string option"
  acceptanceCriteria :: "string option"
  effort :: "real option"
  storyPoints :: "real option"
  activity :: "string option"
  remainingWork :: "real option"
  originalEstimate :: "real option"
  completedWork :: "real option"

record AdoIdentityRef =
  displayName :: "string option"
  uniqueName :: string

record AdoWorkItemFields =
  System_Title :: string
  System_Description :: "string option"
  System_State :: string
  System_WorkItemType :: string
  System_AssignedTo :: "AdoIdentityRef option"
  System_AreaPath :: string
  System_IterationPath :: string
  System_ChangedDate :: string
  System_Tags :: "string option"
  Common_Priority :: "real option"
  Common_ValueArea :: "string option"
  Common_BusinessValue :: "real option"
  Scheduling_Effort :: "real option"
  Scheduling_StoryPoints :: "real option"
  Scheduling_RemainingWork :: "real option"
  Scheduling_OriginalEstimate :: "real option"
  Scheduling_CompletedWork :: "real option"
  Scheduling_TargetDate :: "string option"
  Common_Activity :: "string option"
  Common_AcceptanceCriteria :: "string option"

record AdoRelation =
  rel :: string
  rel_url :: string

record AdoWorkItemResponse =
  resp_id :: int
  resp_rev :: int
  resp_url :: string
  resp_fields :: AdoWorkItemFields
  relations :: "AdoRelation list option"


section \<open>Diff engine (core/diff-engine.ts)\<close>

text \<open>The keys of \<open>WorkItem\<close> that \<open>COMPARE_FIELDS\<close> lists, in its order.\<close>

datatype WorkItemKey =
  K_title | K_description | K_state | K_priority | K_assignedTo | K_areaPath
  | K_iterationPath | K_acceptanceCriteria | K_effort | K_storyPoints | K_businessValue
  | K_valueArea | K_targetDate | K_remainingWork | K_originalEstimate | K_completedWork
  | K_activity | K_tags

definition COMPARE_FIELDS :: "WorkItemKey list" where
  "COMPARE_FIELDS = [K_title, K_description, K_state, K_priority, K_assignedTo, K_areaPath,
     K_iterationPath, K_acceptanceCriteria, K_effort, K_storyPoints, K_businessValue,
     K_valueArea, K_targetDate, K_remainingWork, K_originalEstimate, K_completedWork,
     K_activity, K_tags]"

text \<open>\<open>local[f]\<close>: the property of the local item under key \<open>f\<close>.\<close>

fun localField :: "WorkItemProps \<Rightarrow> WorkItemKey \<Rightarrow> jsval option" where
  "localField w K_title = Some (JStr (title w))"
| "localField w K_description = map_option JStr (description w)"
| "localField w K_state = map_option JStr (state w)"
| "localField w K_priority = map_option JNum (priority w)"
| "localField w K_assignedTo = map_option JStr (assignedTo w)"
| "localField w K_areaPath = map_option JStr (areaPath w)"
| "localField w K_iterationPath = map_option JStr (iterationPath w)"
| "localField w K_acceptanceCriteria = map_option JStr (acceptanceCriteria w)"
| "localField w K_effort = map_option JNum (effort w)"
| "localField w K_storyPoints = map_option JNum (storyPoints w)"
| "localField w K_businessValue = map_option JNum (businessValue w)"
| "localField w K_valueArea = map_option JStr (valueArea w)"
| "localField w K_targetDate = map_option JStr (targetDate w)"
| "localField w K_remainingWork = map_option JNum (remainingWork w)"
| "localField w K_originalEstimate = map_option JNum (originalEstimate w)"
| "localField w K_completedWork = map_option JNum (completedWork w)"
| "localField w K_activity = map_option JStr (activity w)"
| "localField w K_tags = map_option JArr (tags w)"

fun getAdoFieldValue :: "AdoWorkItemResponse \<Rightarrow> WorkItemKey \<Rightarrow> jsval option" where
  "getAdoFieldValue a K_title = Some (JStr (System_Title (resp_fields a)))"
| "getAdoFieldValue a K_description = map_option JStr (System_Description (resp_fields a))"
| "getAdoFieldValue a K_state = Some (JStr (System_State (resp_fields a)))"
| "getAdoFieldValue a K_priority = map_option JNum (Common_Priority (resp_fields a))"
| "getAdoFieldValue a K_assignedTo =
     (case System_AssignedTo (resp_fields a) of None \<Rightarrow> None
      | Some i \<Rightarrow> map_option JStr (displayName i))"
| "getAdoFieldValue a K_areaPath = Some (JStr (System_AreaPath (resp_fields a)))"
| "getAdoFieldValue a K_iterationPath = Some (JStr (System_IterationPath (resp_fields a)))"
| "getAdoFieldValue a K_acceptanceCriteria =
     map_option JStr (Common_AcceptanceCriteria (resp_fields a))"
| "getAdoFieldValue a K_effort = map_option JNum (Scheduling_Effort (resp_fields a))"
| "getAdoFieldValue a K_storyPoints = map_option JNum (Scheduling_StoryPoints (resp_fields a))"
| "getAdoFieldValue a K_businessValue = map_option JNum (Common_BusinessValue (resp_fields a))"
| "getAdoFieldValue a K_valueArea = map_option JStr (Common_ValueArea (resp_fields a))"
| "getAdoFieldValue a K_targetDate = map_option JStr (Scheduling_TargetDate (resp_fields a))"
| "getAdoFieldValue a K_remainingWork =
     map_option JNum (Scheduling_RemainingWork (resp_fields a))"
| "getAdoFieldValue a K_originalEstimate =
     map_option JNum (Scheduling_OriginalEstimate (resp_fields a))"
| "getAdoFieldValue a K_completedWork =
     map_option JNum (Scheduling_CompletedWork (resp_fields a))"
| "getAdoFieldValue a K_activity = map_option JStr (Common_Activity (resp_fields a))"
| "getAdoFieldValue a K_tags =
     (case System_Tags (resp_fields a) of
        None \<Rightarrow> None
      | Some tagsString \<Rightarrow>
          (if tagsString \<noteq> []
           then Some (JArr (filter (\<lambda>t. t \<noteq> []) (splitSemiSpace [] tagsString)))
           else None))"

text \<open>
  \<open>isEqual\<close>: absent on both sides is equal; two arrays are equal when they have the same
  length and their sorted copies agree at every index; two strings are compared trimmed;
  anything else by \<open>===\<close>.
\<close>

fun isEqual :: "jsval option \<Rightarrow> jsval option \<Rightarrow> bool" where
  "isEqual None b = (b = None)"
| "isEqual (Some a) None = False"
| "isEqual (Some (JArr a)) (Some (JArr b)) =
     (if length a \<noteq> length b then False
      else list_all (\<lambda>(x, y). x = y) (zip (sort a) (sort b)))"
| "isEqual (Some (JStr a)) (Some (JStr b)) = (trim a = trim b)"
| "isEqual (Some a) (Some b) = (a = b)"

datatype DiffStatus = New | Modified | Deleted | Unchanged | Conflict

record FieldChange =
  field :: WorkItemKey
  localValue :: "jsval option"
  adoValue :: "jsval option"

record WorkItemDiff =
  diff_localId :: string
  adoId :: "int option"
  status :: DiffStatus
  changes :: "FieldChange list"

text \<open>\<open>local._ado?.rev && ado.rev > local._ado.rev\<close>\<close>

definition adoHasNewerRev :: "AdoMetadata option \<Rightarrow> int \<Rightarrow> bool" where
  "adoHasNewerRev md remoteRev =
     (case md of
        None \<Rightarrow> False
      | Some m \<Rightarrow> (case md_rev m of None \<Rightarrow> False | Some r \<Rightarrow> r \<noteq> 0 \<and> remoteRev > r))"

text \<open>
  \<open>diffWorkItem local ado\<close>.  The local item is given by its properties and the value of
  its \<open>_ado\<close> property.
\<close>

definition diffWorkItem ::
  "WorkItemProps \<Rightarrow> AdoMetadata option \<Rightarrow> AdoWorkItemResponse option \<Rightarrow> WorkItemDiff" where
  "diffWorkItem local md ado =
     (case ado of
        None \<Rightarrow>
          \<lparr>diff_localId = wid local, adoId = None, status = New,
           changes = map (\<lambda>f. \<lparr>field = f, localValue = localField local f, adoValue = None\<rparr>)
                       (filter (\<lambda>f. localField local f \<noteq> None) COMPARE_FIELDS)\<rparr>
      | Some a \<Rightarrow>
          (let changes =
                 map (\<lambda>f. \<lparr>field = f, localValue = localField local f,
                            adoValue = getAdoFieldValue a f\<rparr>)
                   (filter (\<lambda>f. \<not> isEqual (localField local f) (getAdoFieldValue a f))
                      COMPARE_FIELDS);
               status =
                 (if length changes > 0
                  then (if adoHasNewerRev md (resp_rev a) then Conflict else Modified)
                  else Unchanged)
           in \<lparr>diff_localId = wid local, adoId = Some (resp_id a), status = status,
               changes = changes\<rparr>))"

definition hasLocalChanges ::
  "WorkItemProps \<Rightarrow> AdoMetadata option \<Rightarrow> AdoWorkItemResponse \<Rightarrow> bool" where
  "hasLocalChanges local md ado = (length (changes (diffWorkItem local md (Some ado))) > 0)"

record DiffSummary =
  sum_new :: nat
  sum_modified :: nat
  sum_unchanged :: nat
  sum_conflict :: nat
  sum_deleted :: nat

definition getDiffSummary :: "WorkItemDiff list \<Rightarrow> DiffSummary" where
  "getDiffSummary ds =
     \<lparr>sum_new = length (filter (\<lambda>d. status d = New) ds),
      sum_modified = length (filter (\<lambda>d. status d = Modified) ds),
      sum_unchanged = length (filter (\<lambda>d. status d = Unchanged) ds),
      sum_conflict = length (filter (\<lambda>d. status d = Conflict) ds),
      sum_deleted = length (filter (\<lambda>d. status d = Deleted) ds)\<rparr>"

section \<open>Work items API (ado/work-items.ts)\<close>

text \<open>\<open>String(n)\<close> for an integer, used in URLs.\<close>

function showNat :: "nat \<Rightarrow> string" where
  "showNat n = (if n < 10 then [char_of (48 + n)] else showNat (n div 10) @ [char_of (48 + n mod 10)])"
  by pat_completeness auto
termination
  by (relation "measure id") auto

definition showInt :: "int \<Rightarrow> string" where
  "showInt i = (if i < 0 then CHR ''-'' # showNat (nat (- i)) else showNat (nat i))"

definition showId :: "int option \<Rightarrow> string" where
  "showId i = (case i of None \<Rightarrow> ''null'' | Some n \<Rightarrow> showInt n)"

text \<open>\<open>FIELD_MAP\<close> (types/ado-api.ts).\<close>

fun FIELD_MAP :: "WorkItemKey \<Rightarrow> string" where
  "FIELD_MAP K_title = ''System.Title''"
| "FIELD_MAP K_description = ''System.Description''"
| "FIELD_MAP K_state = ''System.State''"
| "FIELD_MAP K_assignedTo = ''System.AssignedTo''"
| "FIELD_MAP K_areaPath = ''System.AreaPath''"
| "FIELD_MAP K_iterationPath = ''System.IterationPath''"
| "FIELD_MAP K_priority = ''Microsoft.VSTS.Common.Priority''"
| "FIELD_MAP K_effort = ''Microsoft.VSTS.Scheduling.Effort''"
| "FIELD_MAP K_storyPoints = ''Microsoft.VSTS.Scheduling.StoryPoints''"
| "FIELD_MAP K_businessValue = ''Microsoft.VSTS.Common.BusinessValue''"
| "FIELD_MAP K_acceptanceCriteria = ''Microsoft.VSTS.Common.AcceptanceCriteria''"
| "FIELD_MAP K_valueArea = ''Microsoft.VSTS.Common.ValueArea''"
| "FIELD_MAP K_targetDate = ''Microsoft.VSTS.Scheduling.TargetDate''"
| "FIELD_MAP K_remainingWork = ''Microsoft.VSTS.Scheduling.RemainingWork''"
| "FIELD_MAP K_originalEstimate = ''Microsoft.VSTS.Scheduling.OriginalEstimate''"
| "FIELD_MAP K_completedWork = ''Microsoft.VSTS.Scheduling.CompletedWork''"
| "FIELD_MAP K_activity = ''Microsoft.VSTS.Common.Activity''"
| "FIELD_MAP K_tags = ''System.Tags''"

definition LINK_PARENT :: string where
  "LINK_PARENT = ''System.LinkTypes.Hierarchy-Reverse''"

definition LINK_CHILD :: string where
  "LINK_CHILD = ''System.LinkTypes.Hierarchy-Forward''"

datatype patchValue = Plain jsval | Relation AdoRelation

record JsonPatchOperation =
  op :: string
  path :: string
  pvalue :: "patchValue option"

text \<open>\<open>value.join('; ')\<close>\<close>

fun joinSemiSpace :: "string list \<Rightarrow> string" where
  "joinSemiSpace [] = []"
| "joinSemiSpace [t] = t"
| "joinSemiSpace (t # u # ts) = t @ ''; '' @ joinSemiSpace (u # ts)"

text \<open>The order of \<open>fieldMappings\<close> in \<open>buildPatchDocument\<close>; only \<open>tags\<close> has a transform.\<close>

definition fieldMappings :: "WorkItemKey list" where
  "fieldMappings = [K_title, K_description, K_state, K_assignedTo, K_areaPath,
     K_iterationPath, K_priority, K_effort, K_storyPoints, K_businessValue,
     K_acceptanceCriteria, K_valueArea, K_targetDate, K_remainingWork, K_originalEstimate,
     K_completedWork, K_activity, K_tags]"

fun transformValue :: "jsval \<Rightarrow> jsval" where
  "transformValue (JArr ts) = JStr (joinSemiSpace ts)"
| "transformValue v = v"

definition buildPatchDocument :: "WorkItemProps \<Rightarrow> JsonPatchOperation list" where
  "buildPatchDocument w =
     concat (map (\<lambda>k. case localField w k of
                         None \<Rightarrow> []
                       | Some v \<Rightarrow>
                           [\<lparr>op = ''add'', path = ''/fields/'' @ FIELD_MAP k,
                             pvalue = Some (Plain (if k = K_tags then transformValue v else v))\<rparr>])
               fieldMappings)"

text \<open>
  The remote service and the clock, seen through \<open>AdoClient\<close>.  \<open>'w\<close> is the state of the
  world outside the process; every request takes it and returns the reply (\<open>Inl\<close> the
  message of the error thrown) and the next state.  The id in a request path is
  interpolated as it is, so it is optional here as it is nullable there.
  \<open>getAllComments\<close> and \<open>getLinkedPullRequests\<close> are requests of their own.
\<close>

record 'w AdoClient =
  getProject :: string
  getOrganization :: string
  http_get_item :: "int option \<Rightarrow> 'w \<Rightarrow> (string + AdoWorkItemResponse) \<times> 'w"
  http_post_item :: "string \<Rightarrow> JsonPatchOperation list \<Rightarrow> 'w \<Rightarrow> (string + AdoWorkItemResponse) \<times> 'w"
  http_patch_item :: "int option \<Rightarrow> JsonPatchOperation list \<Rightarrow> 'w \<Rightarrow> (string + AdoWorkItemResponse) \<times> 'w"
  http_post_batch :: "int list \<Rightarrow> 'w \<Rightarrow> (string + AdoWorkItemResponse list) \<times> 'w"
  getAllComments :: "int \<Rightarrow> 'w \<Rightarrow> (string + AdoComment list) \<times> 'w"
  getLinkedPullRequests :: "AdoWorkItemResponse \<Rightarrow> 'w \<Rightarrow> (string + AdoPullRequest list) \<times> 'w"
  dateNow :: "'w \<Rightarrow> string"

definition createWorkItem ::
  "'w AdoClient \<Rightarrow> string \<Rightarrow> WorkItemProps \<Rightarrow> 'w \<Rightarrow> (string + AdoWorkItemResponse) \<times> 'w" where
  "createWorkItem client type flds w = http_post_item client type (buildPatchDocument flds) w"

text \<open>The patch document \<open>updateWorkItem\<close> sends: the revision test is put first.\<close>

definition updatePatchDocument :: "WorkItemProps \<Rightarrow> int option \<Rightarrow> JsonPatchOperation list" where
  "updatePatchDocument flds expectedRev =
     (case expectedRev of
        None \<Rightarrow> buildPatchDocument flds
      | Some r \<Rightarrow>
          \<lparr>op = ''test'', path = ''/rev'', pvalue = Some (Plain (JNum (of_int r)))\<rparr>
            # buildPatchDocument flds)"

definition updateWorkItem ::
  "'w AdoClient \<Rightarrow> int option \<Rightarrow> WorkItemProps \<Rightarrow> int option \<Rightarrow> 'w
     \<Rightarrow> (string + AdoWorkItemResponse) \<times> 'w" where
  "updateWorkItem client i flds expectedRev w =
     http_patch_item client i (updatePatchDocument flds expectedRev) w"

definition getWorkItem ::
  "'w AdoClient \<Rightarrow> int option \<Rightarrow> 'w \<Rightarrow> (string + AdoWorkItemResponse) \<times> 'w" where
  "getWorkItem client i w = http_get_item client i w"

definition addParentLink ::
  "'w AdoClient \<Rightarrow> int \<Rightarrow> int \<Rightarrow> 'w \<Rightarrow> (string + AdoWorkItemResponse) \<times> 'w" where
  "addParentLink client childId parentId w =
     http_patch_item client (Some childId)
       [\<lparr>op = ''add'', path = ''/relations/-'',
         pvalue = Some (Relation \<lparr>rel = LINK_PARENT,
           rel_url = ''https://dev.azure.com/'' @ getOrganization client @ ''/''
             @ getProject client @ ''/_apis/wit/workItems/'' @ showInt parentId\<rparr>)\<rparr>] w"

text \<open>
  Modelled from the spec: \<open>chunk\<close> of utils/index.ts is not among the sources; the spec has
  the id list chunked at the batch ceiling, one request per chunk, the results concatenated.
\<close>

function chunk :: "'a list \<Rightarrow> nat \<Rightarrow> 'a list list" where
  "chunk xs n = (if xs = [] \<or> n = 0 then [] else take n xs # chunk (drop n xs) n)"
  by pat_completeness auto
termination
  by (relation "measure (\<lambda>(xs, n). length xs)") auto

fun getBatches ::
  "'w AdoClient \<Rightarrow> int list list \<Rightarrow> 'w \<Rightarrow> (string + AdoWorkItemResponse list) \<times> 'w" where
  "getBatches client [] w = (Inr [], w)"
| "getBatches client (batch # batches) w =
     (case http_post_batch client batch w of
        (Inl e, w1) \<Rightarrow> (Inl e, w1)
      | (Inr response, w1) \<Rightarrow>
          (case getBatches client batches w1 of
             (Inl e, w2) \<Rightarrow> (Inl e, w2)
           | (Inr others, w2) \<Rightarrow> (Inr (response @ others), w2)))"

definition getWorkItems ::
  "'w AdoClient \<Rightarrow> int list \<Rightarrow> 'w \<Rightarrow> (string + AdoWorkItemResponse list) \<times> 'w" where
  "getWorkItems client ids w =
     (if length ids = 0 then (Inr [], w) else getBatches client (chunk ids 200) w)"

definition workItemUrl :: "string \<Rightarrow> string \<Rightarrow> int option \<Rightarrow> string" where
  "workItemUrl organization project i =
     ''https://dev.azure.com/'' @ organization @ ''/'' @ project @ ''/_workitems/edit/'' @ showId i"

text \<open>\<open>extractAdoMetadata\<close>; \<open>now\<close> is \<open>new Date().toISOString()\<close>.\<close>

definition extractAdoMetadata ::
  "AdoWorkItemResponse \<Rightarrow> string \<Rightarrow> string \<Rightarrow> string \<Rightarrow> AdoMetadata" where
  "extractAdoMetadata response project organization now =
     \<lparr>workItemId = Some (resp_id response),
      md_url = Some (workItemUrl organization project (Some (resp_id response))),
      md_rev = Some (resp_rev response),
      lastSyncedAt = Some now,
      md_state = Some (System_State (resp_fields response)),
      md_assignedTo =
        (case System_AssignedTo (resp_fields response) of None \<Rightarrow> None
         | Some i \<Rightarrow> displayName i),
      comments = None,
      linkedPRs = None\<rparr>"

section \<open>Hierarchy (core/hierarchy.ts)\<close>

text \<open>
  A \<open>WorkItem\<close> is an object with scalar properties, an \<open>_ado\<close> property and a \<open>children\<close>
  array.  Push and pull assign the \<open>_ado\<close> property of objects (\<open>updateItemMetadata\<close>) that
  are reachable both from the document and from the flattened list, so for them the node
  holds the address of the object (\<open>'m = ref\<close>) and the store gives the current value of
  its \<open>_ado\<close>.  No other property of a work item is assigned after it is built.  Import
  builds a new tree and returns it; there the node holds \<open>_ado\<close> by value.
\<close>

type_synonym ref = nat

datatype 'm WorkItem =
  WorkItem (props: WorkItemProps) (ado: 'm) (children: "'m WorkItem list")

record 'm WorkItemsDocument =
  schemaVersion :: string
  hierarchyType :: string
  doc_organization :: string
  doc_project :: string
  workItems :: "'m WorkItem list"

record heap =
  cells :: "ref \<Rightarrow> AdoMetadata option"
  next_free :: ref

text \<open>A new object: a fresh address, its \<open>_ado\<close> initialised with \<open>v\<close>.\<close>

definition newObject :: "AdoMetadata option \<Rightarrow> heap \<Rightarrow> ref \<times> heap" where
  "newObject v h =
     (next_free h, \<lparr>cells = (cells h)(next_free h := v), next_free = Suc (next_free h)\<rparr>)"

text \<open>
  \<open>WorkItemWithParent\<close>: the object \<open>{...item, parent, depth}\<close>.  The spread copies the
  properties of \<open>item\<close> into a new object: \<open>wp_ado\<close> is the address of that new object, whose
  \<open>_ado\<close> starts as the value \<open>item._ado\<close> has at that moment; \<open>parent\<close> is the copy made
  for the parent.
\<close>

datatype WorkItemWithParent =
  WorkItemWithParent (wp_props: WorkItemProps) (wp_ado: ref)
    (wp_children: "ref WorkItem list") (parent: "WorkItemWithParent option") (depth: nat)

function traverse ::
  "ref WorkItem list \<Rightarrow> WorkItemWithParent option \<Rightarrow> nat \<Rightarrow> heap
     \<Rightarrow> WorkItemWithParent list \<times> heap" where
  "traverse [] par dep h = ([], h)"
| "traverse (WorkItem p a cs # items) par dep h =
     (case newObject (cells h a) h of
        (r, h1) \<Rightarrow>
          (let itemWithParent = WorkItemWithParent p r cs par dep in
           case (if length cs > 0 then traverse cs (Some itemWithParent) (dep + 1) h1
                 else ([], h1)) of
             (sub, h2) \<Rightarrow>
               (case traverse items par dep h2 of
                  (others, h3) \<Rightarrow> (itemWithParent # sub @ others, h3))))"
  by pat_completeness auto
termination
  by (relation "measure (\<lambda>(xs, par, dep, h). size_list size xs)") auto

definition flattenHierarchy ::
  "ref WorkItemsDocument \<Rightarrow> heap \<Rightarrow> WorkItemWithParent list \<times> heap" where
  "flattenHierarchy doc h = traverse (workItems doc) None 0 h"

function traverseReverse ::
  "ref WorkItem list \<Rightarrow> WorkItemWithParent option \<Rightarrow> nat \<Rightarrow> heap
     \<Rightarrow> WorkItemWithParent list \<times> heap" where
  "traverseReverse [] par dep h = ([], h)"
| "traverseReverse (WorkItem p a cs # items) par dep h =
     (case newObject (cells h a) h of
        (r, h1) \<Rightarrow>
          (let itemWithParent = WorkItemWithParent p r cs par dep in
           case (if length cs > 0 then traverseReverse cs (Some itemWithParent) (dep + 1) h1
                 else ([], h1)) of
             (sub, h2) \<Rightarrow>
               (case traverseReverse items par dep h2 of
                  (others, h3) \<Rightarrow> (sub @ itemWithParent # others, h3))))"
  by pat_completeness auto
termination
  by (relation "measure (\<lambda>(xs, par, dep, h). size_list size xs)") auto

definition flattenHierarchyReverse ::
  "ref WorkItemsDocument \<Rightarrow> heap \<Rightarrow> WorkItemWithParent list \<times> heap" where
  "flattenHierarchyReverse doc h = traverseReverse (workItems doc) None 0 h"

section \<open>Sync engine (core/sync-engine.ts)\<close>

datatype SyncAction = ActCreate | ActUpdate | ActSkip | ActConflict | ActDelete

fun actionName :: "SyncAction \<Rightarrow> string" where
  "actionName ActCreate = ''create''"
| "actionName ActUpdate = ''update''"
| "actionName ActSkip = ''skip''"
| "actionName ActConflict = ''conflict''"
| "actionName ActDelete = ''delete''"

record PushOptions =
  dryRun :: bool
  force :: bool
  createOnly :: bool
  updateOnly :: bool
  po_filter :: "string option"

record PullOptions =
  includeComments :: bool
  includePRs :: bool

record ConflictInfo =
  conflict_localId :: string
  conflict_adoId :: "int option"
  conflict_field :: string
  conflict_localValue :: "int option"
  conflict_adoValue :: int
  adoModifiedAt :: string
  localSyncedAt :: string

record SyncDecision =
  action :: SyncAction
  reason :: string
  conflict :: "ConflictInfo option"

record SyncResult =
  localId :: string
  res_action :: SyncAction
  success :: bool
  res_workItemId :: "int option"
  res_url :: "string option"
  error :: "string option"
  message :: "string option"

record ResolvedConfig =
  cfg_organization :: string
  cfg_project :: string
  default_areaPath :: "string option"
  default_iterationPath :: "string option"
  default_state :: "string option"
  default_priority :: "real option"

text \<open>\<open>item._ado?.workItemId\<close> and \<open>item._ado?.rev\<close>\<close>

definition adoIdOf :: "AdoMetadata option \<Rightarrow> int option" where
  "adoIdOf md = (case md of None \<Rightarrow> None | Some m \<Rightarrow> workItemId m)"

definition revOf :: "AdoMetadata option \<Rightarrow> int option" where
  "revOf md = (case md of None \<Rightarrow> None | Some m \<Rightarrow> md_rev m)"

definition decide :: "SyncAction \<Rightarrow> string \<Rightarrow> SyncDecision" where
  "decide a r = \<lparr>action = a, reason = r, conflict = None\<rparr>"

text \<open>
  \<open>determineSyncAction client item options\<close>: the item is given by its properties and the
  current value of its \<open>_ado\<close>.
\<close>

definition determineSyncAction ::
  "'w AdoClient \<Rightarrow> WorkItemProps \<Rightarrow> AdoMetadata option \<Rightarrow> PushOptions \<Rightarrow> 'w
     \<Rightarrow> SyncDecision \<times> 'w" where
  "determineSyncAction client item md options w =
     (let adoId = adoIdOf md in
      if \<not> truthyNum adoId then
        (if updateOnly options
         then (decide ActSkip ''Update-only mode, skipping new item'', w)
         else (decide ActCreate ''No ADO ID - new item'', w))
      else if createOnly options then
        (decide ActSkip ''Create-only mode, skipping existing item'', w)
      else
        (case getWorkItem client adoId w of
           (Inl e, w1) \<Rightarrow>
             (if updateOnly options
              then (decide ActSkip ''ADO item not found, skipping in update-only mode'', w1)
              else (decide ActCreate ''ADO item deleted - recreating'', w1))
         | (Inr adoItem, w1) \<Rightarrow>
             (if \<not> force options \<and> adoHasNewerRev md (resp_rev adoItem) then
                (\<lparr>action = ActConflict, reason = ''ADO modified since last sync'',
                  conflict = Some
                    \<lparr>conflict_localId = wid item, conflict_adoId = adoId,
                     conflict_field = ''revision'', conflict_localValue = revOf md,
                     conflict_adoValue = resp_rev adoItem,
                     adoModifiedAt = System_ChangedDate (resp_fields adoItem),
                     localSyncedAt =
                       (case md of None \<Rightarrow> ''unknown''
                        | Some m \<Rightarrow>
                            (case lastSyncedAt m of None \<Rightarrow> ''unknown'' | Some t \<Rightarrow> t))\<rparr>\<rparr>,
                 w1)
              else if hasLocalChanges item md adoItem then
                (decide ActUpdate ''Local changes detected'', w1)
              else (decide ActSkip ''No changes'', w1))))"

definition applyDefaults :: "WorkItemProps \<Rightarrow> ResolvedConfig \<Rightarrow> WorkItemProps" where
  "applyDefaults item config =
     item\<lparr>areaPath := (case areaPath item of None \<Rightarrow> default_areaPath config | Some v \<Rightarrow> Some v),
          iterationPath :=
            (case iterationPath item of None \<Rightarrow> default_iterationPath config | Some v \<Rightarrow> Some v),
          state := (case state item of None \<Rightarrow> default_state config | Some v \<Rightarrow> Some v),
          priority := (case priority item of None \<Rightarrow> default_priority config | Some v \<Rightarrow> Some v)\<rparr>"

text \<open>
  \<open>executeAction\<close>.  The item is one of the flattened objects; its \<open>_ado\<close> and that of its
  \<open>parent\<close> are read from the store.  \<open>Inl\<close> is the message of the error thrown.
\<close>

definition executeAction ::
  "'w AdoClient \<Rightarrow> heap \<Rightarrow> WorkItemWithParent \<Rightarrow> SyncDecision \<Rightarrow> ResolvedConfig \<Rightarrow> 'w
     \<Rightarrow> (string + SyncResult) \<times> 'w" where
  "executeAction client h item decision config w =
     (case action decision of
        ActCreate \<Rightarrow>
          (case createWorkItem client (wtype (wp_props item)) (applyDefaults (wp_props item) config) w of
             (Inl e, w1) \<Rightarrow> (Inl e, w1)
           | (Inr response, w1) \<Rightarrow>
               (let created =
                      \<lparr>localId = wid (wp_props item), res_action = ActCreate, success = True,
                       res_workItemId = Some (resp_id response),
                       res_url = Some (workItemUrl (cfg_organization config) (cfg_project config)
                                        (Some (resp_id response))),
                       error = None,
                       message = Some (''Created work item #'' @ showInt (resp_id response))\<rparr>;
                    parentId =
                      (case parent item of None \<Rightarrow> None | Some p \<Rightarrow> adoIdOf (cells h (wp_ado p)))
                in case parentId of
                     None \<Rightarrow> (Inr created, w1)
                   | Some pid \<Rightarrow>
                       (if pid \<noteq> 0 then
                          (case addParentLink client (resp_id response) pid w1 of
                             (Inl e, w2) \<Rightarrow> (Inl e, w2)
                           | (Inr linked, w2) \<Rightarrow> (Inr created, w2))
                        else (Inr created, w1))))
      | ActUpdate \<Rightarrow>
          (case cells h (wp_ado item) of
             None \<Rightarrow> (Inl ''Cannot read properties of undefined (reading 'workItemId')'', w)
           | Some m \<Rightarrow>
               (case updateWorkItem client (workItemId m) (wp_props item) (md_rev m) w of
                  (Inl e, w1) \<Rightarrow> (Inl e, w1)
                | (Inr response, w1) \<Rightarrow>
                    (Inr \<lparr>localId = wid (wp_props item), res_action = ActUpdate, success = True,
                          res_workItemId = workItemId m,
                          res_url = Some (workItemUrl (cfg_organization config)
                                           (cfg_project config) (workItemId m)),
                          error = None,
                          message = Some (''Updated work item #'' @ showId (workItemId m))\<rparr>, w1)))
      | ActSkip \<Rightarrow>
          (Inr \<lparr>localId = wid (wp_props item), res_action = ActSkip, success = True,
                res_workItemId = adoIdOf (cells h (wp_ado item)), res_url = None,
                error = None, message = Some (reason decision)\<rparr>, w)
      | ActConflict \<Rightarrow>
          (Inr \<lparr>localId = wid (wp_props item), res_action = ActConflict, success = False,
                res_workItemId = adoIdOf (cells h (wp_ado item)), res_url = None,
                error = Some (reason decision), message = None\<rparr>, w)
      | ActDelete \<Rightarrow>
          (Inr \<lparr>localId = wid (wp_props item), res_action = ActSkip, success = True,
                res_workItemId = None, res_url = None,
                error = None, message = Some ''Unknown action''\<rparr>, w))"

text \<open>
  \<open>updateItemMetadata item metadata\<close>: \<open>item._ado = {...item._ado, ...metadata}\<close>, an assignment
  to the \<open>_ado\<close> property of the object \<open>item\<close>.  The metadata passed comes from
  \<open>extractAdoMetadata\<close>, which sets the six base keys; \<open>comments\<close> and \<open>linkedPRs\<close> are keys
  of it only when pull has fetched them.
\<close>

definition mergeMetadata :: "AdoMetadata option \<Rightarrow> AdoMetadata \<Rightarrow> AdoMetadata" where
  "mergeMetadata old metadata =
     metadata\<lparr>comments :=
                (case comments metadata of
                   Some c \<Rightarrow> Some c
                 | None \<Rightarrow> (case old of None \<Rightarrow> None | Some m \<Rightarrow> comments m)),
              linkedPRs :=
                (case linkedPRs metadata of
                   Some l \<Rightarrow> Some l
                 | None \<Rightarrow> (case old of None \<Rightarrow> None | Some m \<Rightarrow> linkedPRs m))\<rparr>"

definition updateItemMetadata :: "ref \<Rightarrow> AdoMetadata \<Rightarrow> heap \<Rightarrow> heap" where
  "updateItemMetadata item metadata h =
     h\<lparr>cells := (cells h)(item := Some (mergeMetadata (cells h item) metadata))\<rparr>"

definition failedResult :: "string \<Rightarrow> SyncAction \<Rightarrow> int option \<Rightarrow> string \<Rightarrow> SyncResult" where
  "failedResult lid a i e =
     \<lparr>localId = lid, res_action = a, success = False, res_workItemId = i, res_url = None,
      error = Some e, message = None\<rparr>"

text \<open>The body of the loop of \<open>pushWorkItems\<close>, for one item: the results it pushes.\<close>

definition pushItem ::
  "'w AdoClient \<Rightarrow> ResolvedConfig \<Rightarrow> PushOptions \<Rightarrow> WorkItemWithParent \<Rightarrow> 'w \<Rightarrow> heap
     \<Rightarrow> SyncResult list \<times> 'w \<times> heap" where
  "pushItem client config options item w h =
     (case determineSyncAction client (wp_props item) (cells h (wp_ado item)) options w of
        (decision, w1) \<Rightarrow>
          (if dryRun options then
             ([\<lparr>localId = wid (wp_props item), res_action = action decision, success = True,
                res_workItemId = None, res_url = None, error = None,
                message = Some (''[DRY RUN] Would '' @ actionName (action decision) @ '': ''
                                 @ reason decision)\<rparr>], w1, h)
           else
             (case executeAction client h item decision config w1 of
                (Inl e, w2) \<Rightarrow>
                  ([failedResult (wid (wp_props item)) (action decision) None e], w2, h)
              | (Inr result, w2) \<Rightarrow>
                  (if success result \<and> (res_action result = ActCreate \<or> res_action result = ActUpdate)
                   then
                     (case getWorkItem client (res_workItemId result) w2 of
                        (Inl e, w3) \<Rightarrow>
                          ([result, failedResult (wid (wp_props item)) (action decision) None e],
                           w3, h)
                      | (Inr adoItem, w3) \<Rightarrow>
                          ([result], w3,
                           updateItemMetadata (wp_ado item)
                             (extractAdoMetadata adoItem (cfg_project config)
                                (cfg_organization config) (dateNow client w3)) h))
                   else ([result], w2, h)))))"

fun pushLoop ::
  "'w AdoClient \<Rightarrow> ResolvedConfig \<Rightarrow> PushOptions \<Rightarrow> WorkItemWithParent list \<Rightarrow> 'w \<Rightarrow> heap
     \<Rightarrow> SyncResult list \<times> 'w \<times> heap" where
  "pushLoop client config options [] w h = ([], w, h)"
| "pushLoop client config options (item # items) w h =
     (case pushItem client config options item w h of
        (rs, w1, h1) \<Rightarrow>
          (case pushLoop client config options items w1 h1 of
             (others, w2, h2) \<Rightarrow> (rs @ others, w2, h2)))"

text \<open>
  \<open>pushWorkItems\<close>.  \<open>matchesFilter\<close> of utils/index.ts is not among the sources and is a
  parameter.  The result is the list of results, the world and the store after the run.
\<close>

definition pushWorkItems ::
  "(string \<Rightarrow> string \<Rightarrow> bool) \<Rightarrow> 'w AdoClient \<Rightarrow> ref WorkItemsDocument \<Rightarrow> ResolvedConfig
     \<Rightarrow> PushOptions \<Rightarrow> 'w \<Rightarrow> heap \<Rightarrow> SyncResult list \<times> 'w \<times> heap" where
  "pushWorkItems matchesFilter client doc config options w h =
     (case flattenHierarchy doc h of
        (items, h0) \<Rightarrow>
          (let pat = (case po_filter options of None \<Rightarrow> ''*'' | Some f \<Rightarrow> f);
               filteredItems = filter (\<lambda>item. matchesFilter (wid (wp_props item)) pat) items
           in pushLoop client config options filteredItems w h0))"

text \<open>The body of the loop of \<open>pullWorkItems\<close>, for one item.\<close>

definition pullItem ::
  "'w AdoClient \<Rightarrow> ResolvedConfig \<Rightarrow> PullOptions \<Rightarrow> (int \<Rightarrow> AdoWorkItemResponse option)
     \<Rightarrow> WorkItemWithParent \<Rightarrow> 'w \<Rightarrow> heap \<Rightarrow> SyncResult \<times> 'w \<times> heap" where
  "pullItem client config options adoMap item w h =
     (let adoId = adoIdOf (cells h (wp_ado item));
          notFound = failedResult (wid (wp_props item)) ActSkip adoId ''Work item not found in ADO''
      in case adoId of
           None \<Rightarrow> (notFound, w, h)
         | Some i \<Rightarrow>
             (case adoMap i of
                None \<Rightarrow> (notFound, w, h)
              | Some adoItem \<Rightarrow>
                  (let metadata = extractAdoMetadata adoItem (cfg_project config)
                                    (cfg_organization config) (dateNow client w)
                   in case (if includeComments options
                            then (case getAllComments client i w of
                                    (Inl e, w1) \<Rightarrow> (Inl e, w1)
                                  | (Inr cs, w1) \<Rightarrow> (Inr (metadata\<lparr>comments := Some cs\<rparr>), w1))
                            else (Inr metadata, w)) of
                        (Inl e, w1) \<Rightarrow> (failedResult (wid (wp_props item)) ActSkip adoId e, w1, h)
                      | (Inr metadata1, w1) \<Rightarrow>
                          (case (if includePRs options
                                 then (case getLinkedPullRequests client adoItem w1 of
                                         (Inl e, w2) \<Rightarrow> (Inl e, w2)
                                       | (Inr prs, w2) \<Rightarrow>
                                           (Inr (metadata1\<lparr>linkedPRs := Some prs\<rparr>), w2))
                                 else (Inr metadata1, w1)) of
                             (Inl e, w2) \<Rightarrow>
                               (failedResult (wid (wp_props item)) ActSkip adoId e, w2, h)
                           | (Inr metadata2, w2) \<Rightarrow>
                               (\<lparr>localId = wid (wp_props item), res_action = ActUpdate,
                                 success = True, res_workItemId = adoId, res_url = None,
                                 error = None,
                                 message = Some (''Pulled updates for #'' @ showInt i)\<rparr>,
                                w2, updateItemMetadata (wp_ado item) metadata2 h)))))"

fun pullLoop ::
  "'w AdoClient \<Rightarrow> ResolvedConfig \<Rightarrow> PullOptions \<Rightarrow> (int \<Rightarrow> AdoWorkItemResponse option)
     \<Rightarrow> WorkItemWithParent list \<Rightarrow> 'w \<Rightarrow> heap \<Rightarrow> SyncResult list \<times> 'w \<times> heap" where
  "pullLoop client config options adoMap [] w h = ([], w, h)"
| "pullLoop client config options adoMap (item # items) w h =
     (case pullItem client config options adoMap item w h of
        (r, w1, h1) \<Rightarrow>
          (case pullLoop client config options adoMap items w1 h1 of
             (others, w2, h2) \<Rightarrow> (r # others, w2, h2)))"

text \<open>
  \<open>pullWorkItems\<close>.  \<open>Inl\<close> when the batch fetch throws: that error is not caught.
  \<open>new Map(adoItems.map(item => [item.id, item]))\<close> keeps the last record of an id.
\<close>

definition pullWorkItems ::
  "'w AdoClient \<Rightarrow> ref WorkItemsDocument \<Rightarrow> ResolvedConfig \<Rightarrow> PullOptions \<Rightarrow> 'w \<Rightarrow> heap
     \<Rightarrow> (string + SyncResult list) \<times> 'w \<times> heap" where
  "pullWorkItems client doc config options w h =
     (case flattenHierarchy doc h of
        (items, h0) \<Rightarrow>
          (let itemsWithAdoId = filter (\<lambda>item. truthyNum (adoIdOf (cells h0 (wp_ado item)))) items
           in if length itemsWithAdoId = 0 then (Inr [], w, h0)
              else
                (let adoIds = List.map_filter (\<lambda>item. adoIdOf (cells h0 (wp_ado item))) itemsWithAdoId
                 in case getWorkItems client adoIds w of
                      (Inl e, w1) \<Rightarrow> (Inl e, w1, h0)
                    | (Inr adoItems, w1) \<Rightarrow>
                        (case pullLoop client config options
                                (map_of (rev (map (\<lambda>a. (resp_id a, a)) adoItems)))
                                itemsWithAdoId w1 h0 of
                           (rs, w2, h2) \<Rightarrow> (Inr rs, w2, h2)))))"

text \<open>
  Specification side of the diff: at least one compared field differs, by the engine's own
  equality rules.
\<close>

definition fieldsDiffer :: "WorkItemProps \<Rightarrow> AdoWorkItemResponse \<Rightarrow> bool" where
  "fieldsDiffer local a =
     (\<exists>f \<in> set COMPARE_FIELDS. \<not> isEqual (localField local f) (getAdoFieldValue a f))"

text \<open>
  Specification side of push: the decision as the specification lists its cases, with the
  two revisions a conflict carries.  A remote id or a revision is recorded when it is
  present and not zero.
\<close>

definition pushDecisionSpec ::
  "PushOptions \<Rightarrow> AdoMetadata option \<Rightarrow> string + AdoWorkItemResponse \<Rightarrow> WorkItemProps
     \<Rightarrow> SyncAction \<times> (int option \<times> int) option" where
  "pushDecisionSpec options md fetched item =
     (if \<not> truthyNum (adoIdOf md) then (if updateOnly options then ActSkip else ActCreate, None)
      else if createOnly options then (ActSkip, None)
      else
        (case fetched of
           Inl e \<Rightarrow> (if updateOnly options then ActSkip else ActCreate, None)
         | Inr remote \<Rightarrow>
             (if \<not> force options
                 \<and> (case revOf md of None \<Rightarrow> False | Some r \<Rightarrow> r \<noteq> 0 \<and> r < resp_rev remote)
              then (ActConflict, Some (revOf md, resp_rev remote))
              else if fieldsDiffer item remote then (ActUpdate, None)
              else (ActSkip, None))))"

section \<open>Rate limiter (ado/rate-limiter.ts)\<close>

text \<open>
  The clock of the process.  \<open>Date.now()\<close> reads it.  Modelled from the spec: \<open>sleep\<close> of
  utils/index.ts is not among the sources; it suspends the caller for the given number of
  milliseconds (not at all for a negative number).  The clock records every suspension.
\<close>

record clock =
  clockNow :: int
  sleeps :: "int list"

definition sleep :: "int \<Rightarrow> clock \<Rightarrow> clock" where
  "sleep ms c = \<lparr>clockNow = clockNow c + (if ms > 0 then ms else 0), sleeps = sleeps c @ [ms]\<rparr>"

record RateLimiter =
  requestCount :: int
  windowStart :: int
  maxRequestsPerMinute :: int
  windowMs :: int

text \<open>The constructor, with its optional \<open>maxRequestsPerMinute\<close> and \<open>windowMs\<close>.\<close>

definition newRateLimiter :: "int option \<Rightarrow> int option \<Rightarrow> clock \<Rightarrow> RateLimiter" where
  "newRateLimiter maxOpt windowOpt c =
     \<lparr>requestCount = 0, windowStart = clockNow c,
      maxRequestsPerMinute = (case maxOpt of None \<Rightarrow> 100 | Some n \<Rightarrow> n),
      windowMs = (case windowOpt of None \<Rightarrow> 60000 | Some n \<Rightarrow> n)\<rparr>"

definition throttle :: "RateLimiter \<Rightarrow> clock \<Rightarrow> RateLimiter \<times> clock" where
  "throttle l c =
     (let now = clockNow c;
          l1 = (if now - windowStart l \<ge> windowMs l
                then l\<lparr>requestCount := 0, windowStart := now\<rparr> else l)
      in if real_of_int (requestCount l1) \<ge> real_of_int (maxRequestsPerMinute l1) * 0.8 then
           (let waitTime = windowMs l1 - (now - windowStart l1);
                c1 = sleep waitTime c
            in (l1\<lparr>requestCount := 0 + 1, windowStart := clockNow c1\<rparr>, c1))
         else (l1\<lparr>requestCount := requestCount l1 + 1\<rparr>, c))"

definition handleRetryAfter :: "RateLimiter \<Rightarrow> int \<Rightarrow> clock \<Rightarrow> RateLimiter \<times> clock" where
  "handleRetryAfter l retryAfterSeconds c =
     (let c1 = sleep (retryAfterSeconds * 1000) c
      in (l\<lparr>requestCount := 0, windowStart := clockNow c1\<rparr>, c1))"

text \<open>\<open>n\<close> calls of \<open>throttle\<close> in a row.\<close>

fun throttleTimes :: "nat \<Rightarrow> RateLimiter \<Rightarrow> clock \<Rightarrow> RateLimiter \<times> clock" where
  "throttleTimes 0 l c = (l, c)"
| "throttleTimes (Suc n) l c = (case throttleTimes n l c of (l1, c1) \<Rightarrow> throttle l1 c1)"

text \<open>The counter and the start of the window after the window check of \<open>throttle\<close>.\<close>

definition counterAfterWindowCheck :: "RateLimiter \<Rightarrow> clock \<Rightarrow> int" where
  "counterAfterWindowCheck l c =
     (if clockNow c - windowStart l \<ge> windowMs l then 0 else requestCount l)"

definition windowStartAfterCheck :: "RateLimiter \<Rightarrow> clock \<Rightarrow> int" where
  "windowStartAfterCheck l c =
     (if clockNow c - windowStart l \<ge> windowMs l then clockNow c else windowStart l)"

definition clock0 :: clock where
  "clock0 = \<lparr>clockNow = 0, sleeps = []\<rparr>"

section \<open>HTTP client (ado/client.ts)\<close>

text \<open>
  What \<open>handleError\<close> reads of an \<open>AxiosError\<close>: \<open>error.response?.status\<close>, the
  \<open>retry-after\<close> header of the response, and whether \<open>error.config\<close> is set.
\<close>

record AxiosError =
  err_status :: "int option"
  retryAfterHeader :: "string option"
  hasConfig :: bool

datatype clientError = NoPat | Http AxiosError

text \<open>
  The reply to one request sent: the data of a reply that axios resolves, or, of one that
  axios rejects, the status of the response (\<open>None\<close> when no response arrived) and its
  \<open>retry-after\<close> header.  axios rejects with an \<open>AxiosError\<close> that holds the response and
  the config of the request it was sent with.
\<close>

datatype 'a reply = Success 'a | Failure "int option" "string option"

definition axiosError :: "int option \<Rightarrow> string option \<Rightarrow> AxiosError" where
  "axiosError st h = \<lparr>err_status = st, retryAfterHeader = h, hasConfig = True\<rparr>"

text \<open>
  \<open>parseInt(s, 10)\<close>: leading white space, an optional sign, then the longest run of
  decimal digits; \<open>NaN\<close> (\<open>None\<close>) when there is no digit, and for an absent header.
\<close>

definition isDigit :: "char \<Rightarrow> bool" where
  "isDigit c = ((48::nat) \<le> of_char c \<and> of_char c \<le> (57::nat))"

definition digitsValue :: "string \<Rightarrow> int" where
  "digitsValue ds = foldl (\<lambda>acc c. 10 * acc + (int (of_char c) - 48)) 0 ds"

definition parseInt10 :: "string option \<Rightarrow> int option" where
  "parseInt10 v =
     (case v of
        None \<Rightarrow> None
      | Some s \<Rightarrow>
          (case dropWhile isSpace s of
             [] \<Rightarrow> None
           | ch # t \<Rightarrow>
               (let s2 = (if ch = CHR ''-'' \<or> ch = CHR ''+'' then t else ch # t);
                    ds = takeWhile isDigit s2
                in if ds = [] then None
                   else Some (if ch = CHR ''-'' then - digitsValue ds else digitsValue ds))))"

text \<open>\<open>parseInt(error.response.headers['retry-after'], 10) || 60\<close>\<close>

definition retryAfterOf :: "AxiosError \<Rightarrow> int" where
  "retryAfterOf e =
     (case parseInt10 (retryAfterHeader e) of None \<Rightarrow> 60 | Some n \<Rightarrow> if n = 0 then 60 else n)"

text \<open>
  \<open>this.client.request(config)\<close> on the axios instance of the client: the request
  interceptor (\<open>throttle\<close>, then the token; \<open>pat\<close> is \<open>config.pat ?? await getPat(...)\<close>, and
  \<open>if (!pat)\<close> throws for an absent and for an empty token, before anything is sent), the
  request itself, and on an error the response interceptor, which is \<open>handleError\<close>.  The
  replay \<open>this.client.request(error.config)\<close> in \<open>handleError\<close> is a request on the same
  instance, so it passes the same interceptors.  \<open>script\<close> holds the replies the server
  gives to the requests sent, in order; the result is \<open>None\<close> when the replies run out
  before the request settles.  The last component is what remains of the script.
\<close>

function request ::
    "RateLimiter \<Rightarrow> clock \<Rightarrow> string option \<Rightarrow> 'a reply list
       \<Rightarrow> (clientError + 'a) option \<times> RateLimiter \<times> clock \<times> 'a reply list"
  and handleError ::
    "AxiosError \<Rightarrow> RateLimiter \<Rightarrow> clock \<Rightarrow> string option \<Rightarrow> 'a reply list
       \<Rightarrow> (clientError + 'a) option \<times> RateLimiter \<times> clock \<times> 'a reply list" where
  "request l c pat script =
     (case throttle l c of
        (l1, c1) \<Rightarrow>
          (if \<not> truthyStr pat then (Some (Inl NoPat), l1, c1, script)
           else
             (case script of
                [] \<Rightarrow> (None, l1, c1, [])
              | Success x # rest \<Rightarrow> (Some (Inr x), l1, c1, rest)
              | Failure st h # rest \<Rightarrow> handleError (axiosError st h) l1 c1 pat rest)))"
| "handleError e l c pat rest =
     (if err_status e = Some 429 then
        (case handleRetryAfter l (retryAfterOf e) c of
           (l1, c1) \<Rightarrow>
             (if hasConfig e then request l1 c1 pat rest
              else (Some (Inl (Http e)), l1, c1, rest)))
      else (Some (Inl (Http e)), l, c, rest))"
  by pat_completeness auto
termination
  by (relation "measure (\<lambda>x. case x of
         Inl (l, c, pat, script) \<Rightarrow> 2 * length script + 1
       | Inr (e, l, c, pat, rest) \<Rightarrow> 2 * length rest + 2)") auto

text \<open>A reply with status 429 and the given \<open>retry-after\<close> header.\<close>

definition tooManyRequests :: "string option \<Rightarrow> 'a reply" where
  "tooManyRequests h = Failure (Some 429) h"

section \<open>Import engine (core/import-engine.ts)\<close>

text \<open>The outcome of one fetched item, as \<open>importFromAdo\<close> logs it.\<close>

record ImportResult =
  ir_adoId :: int
  ir_localId :: string
  ir_type :: string
  ir_title :: string
  ir_success :: bool
  ir_error :: "string option"
  childCount :: nat

text \<open>
  The \<open>context\<close> argument of \<open>fetchWorkItemTree\<close>.  Its \<open>results\<close> array is the one array that
  every call appends to; it is threaded through the calls below as an argument and a result.
  The optional \<open>isRoot\<close> and \<open>filterDisabled\<close> are only ever tested for truth, so an absent
  one is \<open>False\<close>.
\<close>

record ImportContext =
  ctx_includeComments :: bool
  ctx_includePRs :: bool
  maxDepth :: int
  filterTag :: "string option"
  filterType :: "string option"
  currentDepth :: int
  isRoot :: bool
  filterDisabled :: bool

text \<open>
  \<open>String.prototype.toLowerCase\<close>: among the code units U+0000 to U+00FF the letters with a
  lower case of their own are \<open>A\<close> to \<open>Z\<close> and U+00C0 to U+00DE without the multiplication
  sign U+00D7; the lower case is \<open>32\<close> further on.  Then \<open>replace(/\s+/g, '-')\<close>.
\<close>

definition toLowerChar :: "char \<Rightarrow> char" where
  "toLowerChar c =
     (if ((65::nat) \<le> of_char c \<and> of_char c \<le> (90::nat))
         \<or> ((192::nat) \<le> of_char c \<and> of_char c \<le> (222::nat) \<and> of_char c \<noteq> (215::nat))
      then char_of (of_char c + (32::nat)) else c)"

definition toLowerCase :: "string \<Rightarrow> string" where
  "toLowerCase s = map toLowerChar s"

fun replaceSpaceRuns :: "string \<Rightarrow> string" where
  "replaceSpaceRuns [] = []"
| "replaceSpaceRuns [c] = (if isSpace c then ''-'' else [c])"
| "replaceSpaceRuns (c # d # cs) =
     (if isSpace c
      then (if isSpace d then replaceSpaceRuns (d # cs) else CHR ''-'' # replaceSpaceRuns (d # cs))
      else c # replaceSpaceRuns (d # cs))"

definition getTypePrefix :: "string \<Rightarrow> string" where
  "getTypePrefix type =
     (if type = ''Epic'' then ''epic''
      else if type = ''Feature'' then ''feat''
      else if type = ''Product Backlog Item'' then ''pbi''
      else if type = ''User Story'' then ''story''
      else if type = ''Task'' then ''task''
      else if type = ''Bug'' then ''bug''
      else if type = ''Issue'' then ''issue''
      else replaceSpaceRuns (toLowerCase type))"

definition generateLocalId :: "string \<Rightarrow> int \<Rightarrow> string" where
  "generateLocalId type i = getTypePrefix type @ ''-'' @ showInt i"

text \<open>
  \<open>transformAdoToYaml\<close> copies a field only when it is truthy.  Its \<open>stripHtml\<close>, a chain of
  regular-expression replacements on the description and the acceptance criteria, is an
  argument here: nothing below depends on what it does to the text.
\<close>

definition truthyString :: "string \<Rightarrow> string option" where
  "truthyString v = (if v \<noteq> [] then Some v else None)"

definition truthyOptString :: "string option \<Rightarrow> string option" where
  "truthyOptString v = (case v of None \<Rightarrow> None | Some x \<Rightarrow> truthyString x)"

definition truthyOptNum :: "real option \<Rightarrow> real option" where
  "truthyOptNum v = (case v of None \<Rightarrow> None | Some x \<Rightarrow> if x \<noteq> 0 then Some x else None)"

definition transformAdoToYaml ::
  "(string \<Rightarrow> string) \<Rightarrow> AdoWorkItemResponse \<Rightarrow> ResolvedConfig \<Rightarrow> string
     \<Rightarrow> WorkItemProps \<times> AdoMetadata" where
  "transformAdoToYaml stripHtml adoItem config now =
     (let flds = resp_fields adoItem;
          type = System_WorkItemType flds
      in (\<lparr>wtype = type,
           wid = generateLocalId type (resp_id adoItem),
           title = System_Title flds,
           description = map_option stripHtml (truthyOptString (System_Description flds)),
           state = truthyString (System_State flds),
           priority = truthyOptNum (Common_Priority flds),
           tags = map_option (\<lambda>t. filter (\<lambda>x. x \<noteq> []) (map trim (splitSemi [] t)))
                    (truthyOptString (System_Tags flds)),
           assignedTo =
             (case System_AssignedTo flds of
                None \<Rightarrow> None
              | Some i \<Rightarrow>
                  (case truthyOptString (displayName i) of
                     Some d \<Rightarrow> Some d
                   | None \<Rightarrow> Some (uniqueName i))),
           areaPath = truthyString (System_AreaPath flds),
           iterationPath = truthyString (System_IterationPath flds),
           valueArea = truthyOptString (Common_ValueArea flds),
           businessValue = truthyOptNum (Common_BusinessValue flds),
           targetDate = truthyOptString (Scheduling_TargetDate flds),
           acceptanceCriteria =
             map_option stripHtml (truthyOptString (Common_AcceptanceCriteria flds)),
           effort = truthyOptNum (Scheduling_Effort flds),
           storyPoints = truthyOptNum (Scheduling_StoryPoints flds),
           activity = truthyOptString (Common_Activity flds),
           remainingWork = truthyOptNum (Scheduling_RemainingWork flds),
           originalEstimate = truthyOptNum (Scheduling_OriginalEstimate flds),
           completedWork = truthyOptNum (Scheduling_CompletedWork flds)\<rparr>,
          extractAdoMetadata adoItem (cfg_project config) (cfg_organization config) now))"

text \<open>
  \<open>getChildIds\<close> of ado/work-items.ts: the ids of the relations of type child whose url matches
  \<open>/\/workItems\/(\d+)$/\<close>.
\<close>

definition matchWorkItemId :: "string \<Rightarrow> int option" where
  "matchWorkItemId url =
     (let ds = rev (takeWhile isDigit (rev url));
          front = dropWhile isDigit (rev url)
      in if ds \<noteq> [] \<and> take (length ''/workItems/'') front = rev ''/workItems/''
         then Some (digitsValue ds) else None)"

definition getChildIds :: "AdoWorkItemResponse \<Rightarrow> int list" where
  "getChildIds workItem =
     (case relations workItem of
        None \<Rightarrow> []
      | Some rels \<Rightarrow>
          List.map_filter (\<lambda>r. matchWorkItemId (rel_url r)) (filter (\<lambda>r. rel r = LINK_CHILD) rels))"

text \<open>The tag and type test on one item; the tag comparison ignores case.\<close>

definition shouldIncludeItem :: "WorkItemProps \<Rightarrow> string option \<Rightarrow> string option \<Rightarrow> bool" where
  "shouldIncludeItem item tagFilter typeFilter =
     (if \<not> truthyStr tagFilter \<and> \<not> truthyStr typeFilter then True
      else if truthyStr typeFilter \<and> Some (wtype item) \<noteq> typeFilter then False
      else if truthyStr tagFilter
              \<and> \<not> list_ex (\<lambda>tag. Some (toLowerCase tag) = map_option toLowerCase tagFilter)
                     (case tags item of None \<Rightarrow> [] | Some ts \<Rightarrow> ts)
           then False
      else True)"

text \<open>
  \<open>fetchWorkItemTree\<close>, with its \<open>for\<close> loop over the child ids as \<open>fetchChildren\<close>.  The third
  component of the result is the remote side after the calls made.  A failed \<open>getWorkItem\<close> is
  the \<open>catch\<close> branch; failed comment and pull-request calls are swallowed.  An item whose
  \<open>children\<close> stay unset has the empty list here.
\<close>

function fetchWorkItemTree ::
    "'w AdoClient \<Rightarrow> (string \<Rightarrow> string) \<Rightarrow> int \<Rightarrow> ResolvedConfig \<Rightarrow> ImportContext
       \<Rightarrow> ImportResult list \<Rightarrow> 'w
       \<Rightarrow> AdoMetadata option WorkItem option \<times> ImportResult list \<times> 'w"
  and fetchChildren ::
    "'w AdoClient \<Rightarrow> (string \<Rightarrow> string) \<Rightarrow> int list \<Rightarrow> ResolvedConfig \<Rightarrow> ImportContext
       \<Rightarrow> bool \<Rightarrow> ImportResult list \<Rightarrow> 'w
       \<Rightarrow> AdoMetadata option WorkItem list \<times> ImportResult list \<times> 'w" where
  "fetchWorkItemTree client stripHtml itemId config ctx results w =
     (if currentDepth ctx > maxDepth ctx then (None, results, w)
      else
        (let hasFilters = (truthyStr (filterTag ctx) \<or> truthyStr (filterType ctx));
             shouldApplyFilter = (hasFilters \<and> \<not> filterDisabled ctx \<and> isRoot ctx)
         in case getWorkItem client (Some itemId) w of
              (Inl e, w1) \<Rightarrow>
                (None,
                 results @ [\<lparr>ir_adoId = itemId, ir_localId = ''ado-'' @ showInt itemId,
                              ir_type = ''Unknown'', ir_title = ''Failed to fetch'',
                              ir_success = False, ir_error = Some e, childCount = 0\<rparr>],
                 w1)
            | (Inr adoItem, w1) \<Rightarrow>
                (case transformAdoToYaml stripHtml adoItem config (dateNow client w1) of
                   (workItem, md) \<Rightarrow>
                     (case (if ctx_includeComments ctx
                            then (case getAllComments client itemId w1 of
                                    (Inl e, w2) \<Rightarrow> (md, w2)
                                  | (Inr cs, w2) \<Rightarrow>
                                      (if length cs > 0 then md\<lparr>comments := Some cs\<rparr> else md, w2))
                            else (md, w1)) of
                        (md1, w2) \<Rightarrow>
                          (case (if ctx_includePRs ctx
                                 then (case getLinkedPullRequests client adoItem w2 of
                                         (Inl e, w3) \<Rightarrow> (md1, w3)
                                       | (Inr prs, w3) \<Rightarrow>
                                           (if length prs > 0 then md1\<lparr>linkedPRs := Some prs\<rparr>
                                            else md1, w3))
                                 else (md1, w2)) of
                             (md2, w3) \<Rightarrow>
                               (let childIds = getChildIds adoItem;
                                    results1 = results @
                                      [\<lparr>ir_adoId = itemId, ir_localId = wid workItem,
                                        ir_type = wtype workItem, ir_title = title workItem,
                                        ir_success = True, ir_error = None,
                                        childCount = length childIds\<rparr>]
                                in if length childIds > 0 then
                                     (case fetchChildren client stripHtml childIds config
                                             (ctx\<lparr>currentDepth := currentDepth ctx + 1,
                                                isRoot := False,
                                                filterDisabled :=
                                                  (if shouldApplyFilter then True
                                                   else filterDisabled ctx)\<rparr>)
                                             shouldApplyFilter results1 w3 of
                                        (kids, results2, w4) \<Rightarrow>
                                          (Some (WorkItem workItem (Some md2) kids),
                                           results2, w4))
                                   else (Some (WorkItem workItem (Some md2) []), results1, w3)))))))"
| "fetchChildren client stripHtml [] config ctx shouldApplyFilter results w =
     ([], results, w)"
| "fetchChildren client stripHtml (childId # childIds) config ctx shouldApplyFilter results w =
     (case fetchWorkItemTree client stripHtml childId config ctx results w of
        (child, results1, w1) \<Rightarrow>
          (case fetchChildren client stripHtml childIds config ctx shouldApplyFilter
                  results1 w1 of
             (others, results2, w2) \<Rightarrow>
               ((case child of
                   None \<Rightarrow> others
                 | Some c \<Rightarrow>
                     (if shouldApplyFilter
                      then (if shouldIncludeItem (props c) (filterTag ctx) (filterType ctx)
                            then c # others else others)
                      else c # others)),
                results2, w2)))"
  by pat_completeness auto
termination
  by (relation "measures
        [\<lambda>x. case x of
                Inl (client, stripHtml, itemId, config, ctx, results, w) \<Rightarrow>
                  nat (maxDepth ctx + 1 - currentDepth ctx)
              | Inr (client, stripHtml, childIds, config, ctx, flt, results, w) \<Rightarrow>
                  nat (maxDepth ctx + 1 - currentDepth ctx),
         \<lambda>x. case x of
                Inl (client, stripHtml, itemId, config, ctx, results, w) \<Rightarrow> 0
              | Inr (client, stripHtml, childIds, config, ctx, flt, results, w) \<Rightarrow>
                  Suc (length childIds)]") auto


declare fetchWorkItemTree.simps [simp del]

text \<open>\<open>importFromAdo\<close>; its \<open>throw\<close> is the \<open>Inl\<close> result.\<close>

record ImportOptions =
  io_includeComments :: "bool option"
  io_includePRs :: "bool option"
  io_maxDepth :: "int option"
  io_filterTag :: "string option"
  io_filterType :: "string option"

fun collectTypes :: "'m WorkItem \<Rightarrow> string list" where
  "collectTypes (WorkItem p a cs) = wtype p # concat (map collectTypes cs)"

definition detectHierarchyType :: "'m WorkItem \<Rightarrow> string" where
  "detectHierarchyType rootItem =
     (let types = set (collectTypes rootItem);
          hasEpic = (''Epic'' \<in> types);
          hasFeature = (''Feature'' \<in> types);
          hasPBI = (''Product Backlog Item'' \<in> types \<or> ''User Story'' \<in> types)
      in if hasEpic \<and> hasFeature \<and> hasPBI then ''full''
         else if hasFeature \<and> hasPBI then ''medium''
         else ''simple'')"

definition rootContext :: "ImportOptions \<Rightarrow> ImportContext" where
  "rootContext options =
     \<lparr>ctx_includeComments = (case io_includeComments options of None \<Rightarrow> True | Some b \<Rightarrow> b),
      ctx_includePRs = (case io_includePRs options of None \<Rightarrow> True | Some b \<Rightarrow> b),
      maxDepth = (case io_maxDepth options of None \<Rightarrow> 10 | Some d \<Rightarrow> d),
      filterTag = io_filterTag options,
      filterType = io_filterType options,
      currentDepth = 0,
      isRoot = True,
      filterDisabled = False\<rparr>"

definition importFromAdo ::
  "'w AdoClient \<Rightarrow> (string \<Rightarrow> string) \<Rightarrow> int \<Rightarrow> ResolvedConfig \<Rightarrow> ImportOptions \<Rightarrow> 'w
     \<Rightarrow> (string + AdoMetadata option WorkItemsDocument \<times> ImportResult list) \<times> 'w" where
  "importFromAdo client stripHtml parentId config options w =
     (case fetchWorkItemTree client stripHtml parentId config (rootContext options) [] w of
        (None, results, w1) \<Rightarrow> (Inl (''Could not fetch work item '' @ showInt parentId), w1)
      | (Some tree, results, w1) \<Rightarrow>
          (Inr (\<lparr>schemaVersion = ''1.0'', hierarchyType = detectHierarchyType tree,
                 doc_organization = cfg_organization config, doc_project = cfg_project config,
                 workItems = [tree]\<rparr>, results), w1))"

section \<open>Specification side of the import\<close>

text \<open>
  The context of an import that was given no filter, one item of an import without its
  children, and a tree restricted to the direct children that pass the filter.
\<close>

definition withoutFilters :: "ImportContext \<Rightarrow> ImportContext" where
  "withoutFilters ctx = ctx\<lparr>filterTag := None, filterType := None, filterDisabled := False\<rparr>"

definition fetchItem ::
  "'w AdoClient \<Rightarrow> (string \<Rightarrow> string) \<Rightarrow> int \<Rightarrow> ResolvedConfig \<Rightarrow> ImportContext
     \<Rightarrow> ImportResult list \<Rightarrow> 'w
     \<Rightarrow> (ImportResult list \<times> 'w)
         + (WorkItemProps \<times> AdoMetadata \<times> int list \<times> ImportResult list \<times> 'w)" where
  "fetchItem client stripHtml itemId config ctx results w =
     (case getWorkItem client (Some itemId) w of
        (Inl e, w1) \<Rightarrow>
          Inl (results @ [\<lparr>ir_adoId = itemId, ir_localId = ''ado-'' @ showInt itemId,
                            ir_type = ''Unknown'', ir_title = ''Failed to fetch'',
                            ir_success = False, ir_error = Some e, childCount = 0\<rparr>],
               w1)
      | (Inr adoItem, w1) \<Rightarrow>
          (case transformAdoToYaml stripHtml adoItem config (dateNow client w1) of
             (workItem, md) \<Rightarrow>
               (case (if ctx_includeComments ctx
                      then (case getAllComments client itemId w1 of
                              (Inl e, w2) \<Rightarrow> (md, w2)
                            | (Inr cs, w2) \<Rightarrow>
                                (if length cs > 0 then md\<lparr>comments := Some cs\<rparr> else md, w2))
                      else (md, w1)) of
                  (md1, w2) \<Rightarrow>
                    (case (if ctx_includePRs ctx
                           then (case getLinkedPullRequests client adoItem w2 of
                                   (Inl e, w3) \<Rightarrow> (md1, w3)
                                 | (Inr prs, w3) \<Rightarrow>
                                     (if length prs > 0 then md1\<lparr>linkedPRs := Some prs\<rparr>
                                      else md1, w3))
                           else (md1, w2)) of
                       (md2, w3) \<Rightarrow>
                         Inr (workItem, md2, getChildIds adoItem,
                              results @
                                [\<lparr>ir_adoId = itemId, ir_localId = wid workItem,
                                  ir_type = wtype workItem, ir_title = title workItem,
                                  ir_success = True, ir_error = None,
                                  childCount = length (getChildIds adoItem)\<rparr>],
                              w3)))))"

definition keepMatchingChildren ::
  "string option \<Rightarrow> string option \<Rightarrow> 'm WorkItem \<Rightarrow> 'm WorkItem" where
  "keepMatchingChildren tagFilter typeFilter t =
     WorkItem (props t) (ado t)
       (filter (\<lambda>c. shouldIncludeItem (props c) tagFilter typeFilter) (children t))"


section \<open>Specification side of the traversals\<close>

text \<open>The nodes of a forest in pre-order and in post-order.\<close>

fun preorder :: "'m WorkItem list \<Rightarrow> 'm WorkItem list" where
  "preorder [] = []"
| "preorder (WorkItem p a cs # items) = WorkItem p a cs # preorder cs @ preorder items"

fun postorder :: "'m WorkItem list \<Rightarrow> 'm WorkItem list" where
  "postorder [] = []"
| "postorder (WorkItem p a cs # items) = postorder cs @ WorkItem p a cs # postorder items"

text \<open>
  What identifies a node of the document and the flattened object made for it: the
  properties (with the local id) and the children array.
\<close>

definition nodeContent :: "ref WorkItem \<Rightarrow> WorkItemProps \<times> ref WorkItem list" where
  "nodeContent n = (props n, children n)"

definition copyContent :: "WorkItemWithParent \<Rightarrow> WorkItemProps \<times> ref WorkItem list" where
  "copyContent x = (wp_props x, wp_children x)"

text \<open>
  \<open>parentOk roots seen x\<close>: the flattened object \<open>x\<close> has a consistent parent: none, depth
  \<open>0\<close> and made for a root; or a parent among the objects \<open>seen\<close>, one level above, of
  which it is a child.  \<open>parentsSeen roots seen xs\<close>: every object of \<open>xs\<close> is consistent
  with the objects before it in \<open>xs\<close> and those of \<open>seen\<close>.
\<close>

definition parentOk :: "ref WorkItem list \<Rightarrow> WorkItemWithParent list \<Rightarrow> WorkItemWithParent \<Rightarrow> bool" where
  "parentOk roots seen x =
     (case parent x of
        None \<Rightarrow> depth x = 0 \<and> copyContent x \<in> nodeContent ` set roots
      | Some q \<Rightarrow> q \<in> set seen \<and> depth x = depth q + 1
                  \<and> copyContent x \<in> nodeContent ` set (wp_children q))"

fun parentsSeen :: "ref WorkItem list \<Rightarrow> WorkItemWithParent list \<Rightarrow> WorkItemWithParent list \<Rightarrow> bool" where
  "parentsSeen roots seen [] = True"
| "parentsSeen roots seen (x # xs) = (parentOk roots seen x \<and> parentsSeen roots (x # seen) xs)"

text \<open>The condition under which a call of the traversal keeps \<open>parentsSeen\<close>.\<close>

definition topOk ::
  "ref WorkItem list \<Rightarrow> WorkItemWithParent list \<Rightarrow> WorkItemWithParent option \<Rightarrow> nat
     \<Rightarrow> ref WorkItem list \<Rightarrow> bool" where
  "topOk roots seen par dep ws =
     (case par of
        None \<Rightarrow> dep = 0 \<and> set ws \<subseteq> set roots
      | Some q \<Rightarrow> q \<in> set seen \<and> dep = depth q + 1 \<and> set ws \<subseteq> set (wp_children q))"



text \<open>
  The properties an import gives the item of a remote record; they do not depend on the
  time of the import.
\<close>

definition importedProps ::
  "(string \<Rightarrow> string) \<Rightarrow> ResolvedConfig \<Rightarrow> AdoWorkItemResponse \<Rightarrow> WorkItemProps" where
  "importedProps stripHtml config r = fst (transformAdoToYaml stripHtml r config [])"

text \<open>
  The tree of a table of remote records below the item \<open>i\<close>, the given number of levels
  deep: the item with every child its relations name that the table holds, each child with
  all of its descendants in turn.
\<close>

fun remoteTree ::
  "(int \<Rightarrow> AdoWorkItemResponse option) \<Rightarrow> (AdoWorkItemResponse \<Rightarrow> WorkItemProps) \<Rightarrow> nat \<Rightarrow> int
     \<Rightarrow> unit WorkItem option" where
  "remoteTree remote f 0 i = None"
| "remoteTree remote f (Suc n) i =
     (case remote i of
        None \<Rightarrow> None
      | Some r \<Rightarrow>
          Some (WorkItem (f r) () (List.map_filter (\<lambda>c. remoteTree remote f n c) (getChildIds r))))"

text \<open>A tree without the metadata of its items.\<close>

fun skeleton :: "'m WorkItem \<Rightarrow> unit WorkItem" where
  "skeleton (WorkItem p a cs) = WorkItem p () (map skeleton cs)"

section \<open>A scripted client for concrete runs\<close>

text \<open>
  A client as the test suite mocks it: the remote records are a fixed table, every created
  item is the same response, and the state of the world is the log of the requests made.
\<close>

datatype sentRequest =
  ReqGet "int option" | ReqPost string "JsonPatchOperation list"
  | ReqPatch "int option" "JsonPatchOperation list" | ReqBatch "int list"

definition mockClient ::
  "(int \<Rightarrow> AdoWorkItemResponse option) \<Rightarrow> AdoWorkItemResponse \<Rightarrow> sentRequest list AdoClient" where
  "mockClient remote created =
     \<lparr>getProject = ''test-project'', getOrganization = ''test-org'',
      http_get_item = (\<lambda>i w.
        (case i of None \<Rightarrow> Inl ''Not found''
         | Some n \<Rightarrow> (case remote n of None \<Rightarrow> Inl ''Not found'' | Some a \<Rightarrow> Inr a),
         w @ [ReqGet i])),
      http_post_item = (\<lambda>t d w. (Inr created, w @ [ReqPost t d])),
      http_patch_item = (\<lambda>i d w.
        (case i of None \<Rightarrow> Inl ''Not found''
         | Some n \<Rightarrow> (case remote n of None \<Rightarrow> Inl ''Not found'' | Some a \<Rightarrow> Inr a),
         w @ [ReqPatch i d])),
      http_post_batch = (\<lambda>ids w. (Inr (List.map_filter remote ids), w @ [ReqBatch ids])),
      getAllComments = (\<lambda>i w. (Inr [], w)),
      getLinkedPullRequests = (\<lambda>a w. (Inr [], w)),
      dateNow = (\<lambda>w. ''2024-01-15T10:30:00.000Z'')\<rparr>"

definition mockAdoResponse :: "int \<Rightarrow> int \<Rightarrow> string \<Rightarrow> AdoWorkItemResponse" where
  "mockAdoResponse i r t =
     \<lparr>resp_id = i, resp_rev = r, resp_url = ''https://dev.azure.com/test-org/_apis/wit/workItems/'' @ showInt i,
      resp_fields = \<lparr>System_Title = t, System_Description = None, System_State = ''New'',
        System_WorkItemType = ''Product Backlog Item'', System_AssignedTo = None,
        System_AreaPath = ''test-project'', System_IterationPath = ''test-project'',
        System_ChangedDate = ''2024-01-15T10:00:00.000Z'', System_Tags = None,
        Common_Priority = None, Common_ValueArea = None, Common_BusinessValue = None,
        Scheduling_Effort = None, Scheduling_StoryPoints = None,
        Scheduling_RemainingWork = None, Scheduling_OriginalEstimate = None,
        Scheduling_CompletedWork = None, Scheduling_TargetDate = None,
        Common_Activity = None, Common_AcceptanceCriteria = None\<rparr>,
      relations = None\<rparr>"

definition mockWorkItem :: "string \<Rightarrow> string \<Rightarrow> WorkItemProps" where
  "mockWorkItem i t =
     \<lparr>wtype = ''Product Backlog Item'', wid = i, title = t, description = None,
      state = None, priority = None, tags = None, assignedTo = None, areaPath = None,
      iterationPath = None, valueArea = None, businessValue = None, targetDate = None,
      acceptanceCriteria = None, effort = None, storyPoints = None, activity = None,
      remainingWork = None, originalEstimate = None, completedWork = None\<rparr>"

definition mockAdoMetadata :: "int option \<Rightarrow> int option \<Rightarrow> AdoMetadata" where
  "mockAdoMetadata i r =
     \<lparr>workItemId = i, md_url = None, md_rev = r, lastSyncedAt = Some ''2024-01-15T10:30:00.000Z'',
      md_state = None, md_assignedTo = None, comments = None, linkedPRs = None\<rparr>"

definition mockConfig :: ResolvedConfig where
  "mockConfig = \<lparr>cfg_organization = ''test-org'', cfg_project = ''test-project'',
     default_areaPath = None, default_iterationPath = None, default_state = None,
     default_priority = None\<rparr>"

text \<open>Documents and stores for concrete runs.\<close>

definition emptyHeap :: "nat \<Rightarrow> heap" where
  "emptyHeap n = \<lparr>cells = (\<lambda>a. None), next_free = n\<rparr>"

definition mockDocument :: "ref WorkItemsDocument" where
  "mockDocument =
     \<lparr>schemaVersion = ''1.0'', hierarchyType = ''full'', doc_organization = ''test-org'',
      doc_project = ''test-project'',
      workItems =
        [WorkItem (mockWorkItem ''epic-001'' ''Epic'') 0
           [WorkItem (mockWorkItem ''feat-001'' ''Feature'') 1
              [WorkItem (mockWorkItem ''pbi-001'' ''First'') 2 [],
               WorkItem (mockWorkItem ''pbi-002'' ''Second'') 3 []]]]\<rparr>"

definition singleItemDocument :: "ref WorkItemsDocument" where
  "singleItemDocument =
     \<lparr>schemaVersion = ''1.0'', hierarchyType = ''simple'', doc_organization = ''test-org'',
      doc_project = ''test-project'',
      workItems = [WorkItem (mockWorkItem ''pbi-001'' ''New Item'') 0 []]\<rparr>"

definition linkedHeap :: heap where
  "linkedHeap = \<lparr>cells = (\<lambda>a. if a = 0 then Some (mockAdoMetadata (Some 123) (Some 1)) else None),
     next_free = 1\<rparr>"



definition noPushOptions :: PushOptions where
  "noPushOptions = \<lparr>dryRun = False, force = False, createOnly = False, updateOnly = False,
     po_filter = None\<rparr>"

definition noPullOptions :: PullOptions where
  "noPullOptions = \<lparr>includeComments = False, includePRs = False\<rparr>"


text \<open>
  A remote tree for import: item 1 with the children 2 (tagged \<open>frontend\<close>, itself with the
  untagged child 4) and 3 (tagged \<open>backend\<close>).
\<close>

definition importRemote :: "int \<Rightarrow> AdoWorkItemResponse option" where
  "importRemote i =
     (if i = 1 then
        Some ((mockAdoResponse 1 1 ''Root'')
          \<lparr>relations := Some
             [\<lparr>rel = LINK_CHILD, rel_url = ''https://dev.azure.com/o/p/_apis/wit/workItems/2''\<rparr>,
              \<lparr>rel = LINK_CHILD, rel_url = ''https://dev.azure.com/o/p/_apis/wit/workItems/3''\<rparr>]\<rparr>)
      else if i = 2 then
        Some ((mockAdoResponse 2 1 ''Front'')
          \<lparr>resp_fields := (resp_fields (mockAdoResponse 2 1 ''Front''))\<lparr>System_Tags := Some ''frontend''\<rparr>,
           relations := Some
             [\<lparr>rel = LINK_CHILD, rel_url = ''https://dev.azure.com/o/p/_apis/wit/workItems/4''\<rparr>]\<rparr>)
      else if i = 3 then
        Some ((mockAdoResponse 3 1 ''Back'')
          \<lparr>resp_fields := (resp_fields (mockAdoResponse 3 1 ''Back''))\<lparr>System_Tags := Some ''backend''\<rparr>\<rparr>)
      else if i = 4 then Some (mockAdoResponse 4 1 ''Task of front'')
      else None)"

definition frontendOnly :: ImportOptions where
  "frontendOnly =
     \<lparr>io_includeComments = None, io_includePRs = None, io_maxDepth = None,
      io_filterTag = Some ''frontend'', io_filterType = None\<rparr>"

fun localIds :: "'m WorkItem \<Rightarrow> string list" where
  "localIds (WorkItem p a cs) = wid p # concat (map localIds cs)"


chapter \<open>Verified properties\<close>

section \<open>Diff engine\<close>

lemma changes_nonempty_iff:
  "(length (changes (diffWorkItem local md (Some a))) > 0) = fieldsDiffer local a"
  by (auto simp: diffWorkItem_def fieldsDiffer_def Let_def filter_empty_conv)

lemma adoHasNewerRev_iff:
  "adoHasNewerRev md remoteRev =
     (\<exists>m r. md = Some m \<and> md_rev m = Some r \<and> r \<noteq> 0 \<and> remoteRev > r)"
  by (auto simp: adoHasNewerRev_def truthyNum_def split: option.splits)

lemma isEqual_trims_white_space:
  "isEqual (Some (JStr (''Title'' @ [CHR 0xA0]))) (Some (JStr (CHR 0x09 # ''Title'' @ ''  '')))
   \<and> \<not> isEqual (Some (JStr ''Title'')) (Some (JStr ''Ti tle''))"
  by (simp add: trim_def isSpace_def)

text \<open>
  C2.  Against a present remote record, \<open>diffWorkItem\<close> reports \<open>conflict\<close> exactly when
  some compared field differs and the item records a prior revision that the remote
  revision strictly exceeds; \<open>modified\<close> exactly when some field differs and that revision
  condition does not hold; \<open>unchanged\<close> exactly when no field differs, whatever the
  revisions are.  The source tests \<open>local._ado?.rev\<close> for truthiness, so a recorded
  revision is a \<open>rev\<close> that is neither absent nor zero.
\<close>

theorem diffWorkItem_status:
  "(status (diffWorkItem local md (Some a)) = Conflict) =
      (fieldsDiffer local a \<and>
       (\<exists>m r. md = Some m \<and> md_rev m = Some r \<and> r \<noteq> 0 \<and> resp_rev a > r))
   \<and> (status (diffWorkItem local md (Some a)) = Modified) =
      (fieldsDiffer local a \<and>
       \<not> (\<exists>m r. md = Some m \<and> md_rev m = Some r \<and> r \<noteq> 0 \<and> resp_rev a > r))
   \<and> (status (diffWorkItem local md (Some a)) = Unchanged) = (\<not> fieldsDiffer local a)"
proof -
  have s: "status (diffWorkItem local md (Some a)) =
      (if fieldsDiffer local a
       then (if adoHasNewerRev md (resp_rev a) then Conflict else Modified)
       else Unchanged)"
    using changes_nonempty_iff [of local md a]
    by (simp add: diffWorkItem_def Let_def)
  show ?thesis unfolding s adoHasNewerRev_iff by auto
qed

lemma status_not_deleted: "status (diffWorkItem local md remote) \<noteq> Deleted"
  by (cases remote) (simp_all add: diffWorkItem_def Let_def)

text \<open>
  C10.  The status of a diff is one of \<open>new\<close>, \<open>modified\<close>, \<open>conflict\<close>, \<open>unchanged\<close>, never
  \<open>deleted\<close>; so the summary of any list of diffs computed by \<open>diffWorkItem\<close> counts no
  deleted item.
\<close>

theorem getDiffSummary_deleted_zero:
  "status (diffWorkItem local md remote) \<in> {New, Modified, Conflict, Unchanged}
   \<and> sum_deleted (getDiffSummary (map (\<lambda>(l, m, r). diffWorkItem l m r) inputs)) = 0"
proof -
  have "status (diffWorkItem local md remote) \<in> {New, Modified, Conflict, Unchanged}"
    by (cases remote) (simp_all add: diffWorkItem_def Let_def)
  moreover have
    "filter (\<lambda>d. status d = Deleted) (map (\<lambda>(l, m, r). diffWorkItem l m r) inputs) = []"
    by (auto simp: filter_empty_conv status_not_deleted)
  ultimately show ?thesis by (simp add: getDiffSummary_def)
qed

section \<open>Push decisions and conditioned updates\<close>

text \<open>
  C3.  The action \<open>determineSyncAction\<close> returns, and the two revisions of the conflict it
  reports, are those of the specification's case analysis: no recorded remote id gives
  \<open>create\<close> (\<open>skip\<close> under update-only); a recorded id under create-only gives \<open>skip\<close>; a
  failed fetch gives \<open>create\<close> (\<open>skip\<close> under update-only); otherwise, without force, a
  recorded revision below the fetched one gives \<open>conflict\<close> carrying both revisions;
  otherwise \<open>update\<close> when some compared field differs and \<open>skip\<close> when none does.
\<close>

theorem determineSyncAction_cases:
  "(case determineSyncAction client item md options w of
      (d, w1) \<Rightarrow>
        (action d, map_option (\<lambda>c. (conflict_localValue c, conflict_adoValue c)) (conflict d)))
   = pushDecisionSpec options md (fst (getWorkItem client (adoIdOf md) w)) item"
proof -
  have n: "\<And>rr. adoHasNewerRev md rr =
      (case revOf md of None \<Rightarrow> False | Some r \<Rightarrow> r \<noteq> 0 \<and> r < rr)"
    by (auto simp: adoHasNewerRev_def revOf_def split: option.splits)
  show ?thesis
    unfolding determineSyncAction_def pushDecisionSpec_def hasLocalChanges_def
      changes_nonempty_iff n
    by (cases "getWorkItem client (adoIdOf md) w")
       (auto simp: Let_def decide_def split: sum.splits)
qed

text \<open>
  C4.  When \<open>executeAction\<close> runs an \<open>update\<close> for an item whose metadata records the
  revision \<open>r\<close>, the one request it makes is a PATCH of the item whose document starts with
  the operation \<open>test /rev r\<close>, followed by the field operations; its outcome is the outcome
  of that request.
\<close>

theorem executeAction_update_conditioned:
  assumes "action decision = ActUpdate"
    and "cells h (wp_ado item) = Some m"
    and "md_rev m = Some r"
  shows "executeAction client h item decision config w =
     (case http_patch_item client (workItemId m)
             (\<lparr>op = ''test'', path = ''/rev'', pvalue = Some (Plain (JNum (of_int r)))\<rparr>
                # buildPatchDocument (wp_props item)) w of
        (Inl e, w1) \<Rightarrow> (Inl e, w1)
      | (Inr response, w1) \<Rightarrow>
          (Inr \<lparr>localId = wid (wp_props item), res_action = ActUpdate, success = True,
                res_workItemId = workItemId m,
                res_url = Some (workItemUrl (cfg_organization config) (cfg_project config)
                                 (workItemId m)),
                error = None,
                message = Some (''Updated work item #'' @ showId (workItemId m))\<rparr>, w1))"
  using assms
  by (simp add: executeAction_def updateWorkItem_def updatePatchDocument_def)



theorem executeAction_update_conditioned_witness:
  "action (decide ActUpdate ''Local changes detected'') = ActUpdate
   \<and> cells \<lparr>cells = (\<lambda>a. if a = 0 then Some (mockAdoMetadata (Some 123) (Some 1)) else None),
              next_free = 1\<rparr> 0 = Some (mockAdoMetadata (Some 123) (Some 1))
   \<and> md_rev (mockAdoMetadata (Some 123) (Some 1)) = Some 1
   \<and> executeAction
        (mockClient (\<lambda>i. if i = 123 then Some (mockAdoResponse 123 2 ''Old'') else None)
           (mockAdoResponse 123 1 ''Old''))
        \<lparr>cells = (\<lambda>a. if a = 0 then Some (mockAdoMetadata (Some 123) (Some 1)) else None),
          next_free = 1\<rparr>
        (WorkItemWithParent (mockWorkItem ''pbi-001'' ''Updated Title'') 0 [] None 0)
        (decide ActUpdate ''Local changes detected'') mockConfig []
      = (Inr \<lparr>localId = ''pbi-001'', res_action = ActUpdate, success = True,
              res_workItemId = Some 123,
              res_url = Some (workItemUrl ''test-org'' ''test-project'' (Some 123)),
              error = None, message = Some (''Updated work item #'' @ showId (Some 123))\<rparr>,
         [ReqPatch (Some 123)
            [\<lparr>op = ''test'', path = ''/rev'', pvalue = Some (Plain (JNum 1))\<rparr>,
             \<lparr>op = ''add'', path = ''/fields/System.Title'',
               pvalue = Some (Plain (JStr ''Updated Title''))\<rparr>]])"
  using executeAction_update_conditioned
    [of "decide ActUpdate ''Local changes detected''"
        "\<lparr>cells = (\<lambda>a. if a = 0 then Some (mockAdoMetadata (Some 123) (Some 1)) else None),
          next_free = 1\<rparr>"
        "WorkItemWithParent (mockWorkItem ''pbi-001'' ''Updated Title'') 0 [] None 0"
        "mockAdoMetadata (Some 123) (Some 1)" 1
        "mockClient (\<lambda>i. if i = 123 then Some (mockAdoResponse 123 2 ''Old'') else None)
           (mockAdoResponse 123 1 ''Old'')"
        mockConfig "[]"]
  by (simp add: decide_def mockAdoMetadata_def mockClient_def mockConfig_def mockWorkItem_def
        buildPatchDocument_def fieldMappings_def)

section \<open>Rate limiter\<close>

lemma throttle_steps:
  "throttle l c =
     (if real_of_int (counterAfterWindowCheck l c) \<ge> real_of_int (maxRequestsPerMinute l) * 0.8
      then (l\<lparr>requestCount := 1,
              windowStart :=
                clockNow (sleep (windowMs l - (clockNow c - windowStartAfterCheck l c)) c)\<rparr>,
            sleep (windowMs l - (clockNow c - windowStartAfterCheck l c)) c)
      else (l\<lparr>requestCount := counterAfterWindowCheck l c + 1,
              windowStart := windowStartAfterCheck l c\<rparr>, c))"
  by (auto simp: throttle_def Let_def counterAfterWindowCheck_def windowStartAfterCheck_def)

lemma throttle_counter_general:
  "requestCount (fst (throttle l c)) = 1
   \<or> 5 * requestCount (fst (throttle l c)) < 4 * maxRequestsPerMinute l + 5"
  by (auto simp: throttle_steps)

lemma throttle_ninth_call:
  "throttleTimes 8 (newRateLimiter (Some 10) None clock0) clock0
     = (\<lparr>requestCount = 8, windowStart = 0, maxRequestsPerMinute = 10, windowMs = 60000\<rparr>,
        clock0)
   \<and> throttleTimes 9 (newRateLimiter (Some 10) None clock0) clock0
     = (\<lparr>requestCount = 1, windowStart = 60000, maxRequestsPerMinute = 10, windowMs = 60000\<rparr>,
        \<lparr>clockNow = 60000, sleeps = [60000]\<rparr>)"
  by (simp add: eval_nat_numeral throttle_def newRateLimiter_def sleep_def Let_def clock0_def)

text \<open>
  C6, as the claim states its last part: with an allowance of \<open>0\<close>, \<open>0.8 \<times> N = 0\<close> is an
  integer, and the counter is \<open>1\<close> after a throttle, above \<open>0.8 \<times> N\<close>.
\<close>

theorem throttle_counter_exceeds_at_zero_allowance:
  "(4 * maxRequestsPerMinute (newRateLimiter (Some 0) None clock0)) mod 5 = 0
   \<and> requestCount (fst (throttle (newRateLimiter (Some 0) None clock0) clock0)) = 1
   \<and> \<not> real_of_int (requestCount (fst (throttle (newRateLimiter (Some 0) None clock0) clock0)))
         \<le> 0.8 * real_of_int (maxRequestsPerMinute (newRateLimiter (Some 0) None clock0))"
  by (simp add: throttle_def newRateLimiter_def sleep_def Let_def clock0_def)

text \<open>
  C6, amended.  A call of \<open>throttle\<close> first resets the counter when the window has elapsed;
  then, when the counter has reached 80% of the allowance \<open>N\<close>, it suspends for the rest of
  the window and leaves the counter at \<open>1\<close>, and otherwise it increments the counter.  With
  \<open>N = 10\<close> eight calls in one window do not suspend and the ninth does; after a window
  expiry the counter is \<open>1\<close>.  When \<open>0.8 \<times> N\<close> is an integer and \<open>N\<close> is at least \<open>1\<close>, the
  counter is at most \<open>0.8 \<times> N\<close> after a throttle.
\<close>

theorem throttle_counter:
  "throttle l c =
     (if real_of_int (counterAfterWindowCheck l c) \<ge> real_of_int (maxRequestsPerMinute l) * 0.8
      then (l\<lparr>requestCount := 1,
              windowStart :=
                clockNow (sleep (windowMs l - (clockNow c - windowStartAfterCheck l c)) c)\<rparr>,
            sleep (windowMs l - (clockNow c - windowStartAfterCheck l c)) c)
      else (l\<lparr>requestCount := counterAfterWindowCheck l c + 1,
              windowStart := windowStartAfterCheck l c\<rparr>, c))
   \<and> sleeps (snd (throttleTimes 8 (newRateLimiter (Some 10) None clock0) clock0)) = []
   \<and> requestCount (fst (throttleTimes 8 (newRateLimiter (Some 10) None clock0) clock0)) = 8
   \<and> sleeps (snd (throttleTimes 9 (newRateLimiter (Some 10) None clock0) clock0)) = [60000]
   \<and> requestCount (fst (throttleTimes 9 (newRateLimiter (Some 10) None clock0) clock0)) = 1
   \<and> (clockNow c - windowStart l \<ge> windowMs l \<longrightarrow> requestCount (fst (throttle l c)) = 1)
   \<and> ((4 * maxRequestsPerMinute l) mod 5 = 0 \<and> 1 \<le> maxRequestsPerMinute l \<longrightarrow>
        real_of_int (requestCount (fst (throttle l c)))
          \<le> 0.8 * real_of_int (maxRequestsPerMinute l))"
proof -
  have expiry: "clockNow c - windowStart l \<ge> windowMs l \<longrightarrow> requestCount (fst (throttle l c)) = 1"
    by (auto simp: throttle_steps counterAfterWindowCheck_def)
  have bound: "(4 * maxRequestsPerMinute l) mod 5 = 0 \<and> 1 \<le> maxRequestsPerMinute l \<longrightarrow>
        real_of_int (requestCount (fst (throttle l c)))
          \<le> 0.8 * real_of_int (maxRequestsPerMinute l)"
  proof
    assume a: "(4 * maxRequestsPerMinute l) mod 5 = 0 \<and> 1 \<le> maxRequestsPerMinute l"
    then have "5 * requestCount (fst (throttle l c)) \<le> 4 * maxRequestsPerMinute l"
      using throttle_counter_general [of l c] by presburger
    then have "real_of_int (5 * requestCount (fst (throttle l c)))
        \<le> real_of_int (4 * maxRequestsPerMinute l)"
      by (simp only: of_int_le_iff)
    then show "real_of_int (requestCount (fst (throttle l c)))
          \<le> 0.8 * real_of_int (maxRequestsPerMinute l)"
      by simp
  qed
  have n8: "sleeps (snd (throttleTimes 8 (newRateLimiter (Some 10) None clock0) clock0)) = []"
    and c8: "requestCount (fst (throttleTimes 8 (newRateLimiter (Some 10) None clock0) clock0)) = 8"
    and n9: "sleeps (snd (throttleTimes 9 (newRateLimiter (Some 10) None clock0) clock0)) = [60000]"
    and c9: "requestCount (fst (throttleTimes 9 (newRateLimiter (Some 10) None clock0) clock0)) = 1"
    using throttle_ninth_call by (simp_all add: clock0_def)
  from throttle_steps [of l c] n8 c8 n9 c9 expiry bound show ?thesis
    by blast
qed

theorem throttle_counter_witness:
  "clockNow \<lparr>clockNow = 60000, sleeps = []\<rparr>
       - windowStart \<lparr>requestCount = 8, windowStart = 0, maxRequestsPerMinute = 10, windowMs = 60000\<rparr>
     \<ge> windowMs \<lparr>requestCount = 8, windowStart = 0, maxRequestsPerMinute = 10, windowMs = 60000\<rparr>
   \<and> (4 * maxRequestsPerMinute
           \<lparr>requestCount = 8, windowStart = 0, maxRequestsPerMinute = 10, windowMs = 60000\<rparr>) mod 5 = 0
   \<and> 1 \<le> maxRequestsPerMinute
           \<lparr>requestCount = 8, windowStart = 0, maxRequestsPerMinute = 10, windowMs = 60000\<rparr>
   \<and> requestCount (fst (throttle
        \<lparr>requestCount = 8, windowStart = 0, maxRequestsPerMinute = 10, windowMs = 60000\<rparr>
        \<lparr>clockNow = 60000, sleeps = []\<rparr>)) = 1
   \<and> real_of_int (requestCount (fst (throttle
        \<lparr>requestCount = 8, windowStart = 0, maxRequestsPerMinute = 10, windowMs = 60000\<rparr>
        \<lparr>clockNow = 60000, sleeps = []\<rparr>))) \<le> 0.8 * real_of_int 10"
  using throttle_counter
    [of "\<lparr>requestCount = 8, windowStart = 0, maxRequestsPerMinute = 10, windowMs = 60000\<rparr>"
        "\<lparr>clockNow = 60000, sleeps = []\<rparr>"]
  by (simp add: counterAfterWindowCheck_def windowStartAfterCheck_def sleep_def)

section \<open>HTTP client\<close>

lemma request_429_step:
  "truthyStr pat \<Longrightarrow>
   request l c pat (tooManyRequests h # rest) =
     (case throttle l c of
        (l1, c1) \<Rightarrow>
          request (l1\<lparr>requestCount := 0,
                       windowStart :=
                         clockNow (sleep (retryAfterOf (axiosError (Some 429) h) * 1000) c1)\<rparr>)
            (sleep (retryAfterOf (axiosError (Some 429) h) * 1000) c1) pat rest)"
  by (simp add: tooManyRequests_def axiosError_def handleRetryAfter_def Let_def
        split: prod.splits)

lemma isDigit_not_space: "isDigit ch \<Longrightarrow> \<not> isSpace ch"
  by (auto simp: isDigit_def isSpace_def)

lemma isDigit_not_sign: "isDigit ch \<Longrightarrow> ch \<noteq> CHR ''-'' \<and> ch \<noteq> CHR ''+''"
  by (auto simp: isDigit_def)

lemma parseInt10_digits:
  "ds \<noteq> [] \<Longrightarrow> list_all isDigit ds \<Longrightarrow> parseInt10 (Some ds) = Some (digitsValue ds)"
proof -
  assume a: "ds \<noteq> []" "list_all isDigit ds"
  then obtain ch t where d: "ds = ch # t" by (cases ds) auto
  have ch: "isDigit ch" and t: "list_all isDigit t" using a d by auto
  have tw: "takeWhile isDigit t = t" using t by (simp add: list_all_iff)
  show ?thesis
    using isDigit_not_space [OF ch] isDigit_not_sign [OF ch] ch
    by (simp add: parseInt10_def d Let_def tw)
qed

lemma retryAfterOf_absent: "retryAfterOf (axiosError st None) = 60"
  by (simp add: retryAfterOf_def axiosError_def parseInt10_def)

lemma retryAfterOf_digits:
  "ds \<noteq> [] \<Longrightarrow> list_all isDigit ds \<Longrightarrow>
   retryAfterOf (axiosError st (Some ds)) = (if digitsValue ds = 0 then 60 else digitsValue ds)"
  by (simp add: retryAfterOf_def axiosError_def parseInt10_digits)

lemma retryAfterOf_unparsable:
  assumes "case dropWhile isSpace s of
      [] \<Rightarrow> True
    | ch # t \<Rightarrow> \<not> isDigit ch \<and> ch \<noteq> CHR ''-'' \<and> ch \<noteq> CHR ''+''"
  shows "retryAfterOf (axiosError st (Some s)) = 60"
proof -
  define d where "d = dropWhile isSpace s"
  have p: "parseInt10 (Some s) =
     (case d of
             [] \<Rightarrow> None
           | ch # t \<Rightarrow>
               (let s2 = (if ch = CHR ''-'' \<or> ch = CHR ''+'' then t else ch # t);
                    ds = takeWhile isDigit s2
                in if ds = [] then None
                   else Some (if ch = CHR ''-'' then - digitsValue ds else digitsValue ds)))"
    by (simp add: parseInt10_def d_def)
  have "parseInt10 (Some s) = None"
    using assms unfolding p d_def [symmetric] by (cases d) (simp_all add: Let_def)
  then show ?thesis by (simp add: retryAfterOf_def axiosError_def)
qed


lemma throttle_sleeps: "\<exists>ys. sleeps (snd (throttle l c)) = sleeps c @ ys"
  by (simp add: throttle_steps sleep_def)

lemma request_settles_sleeps:
  assumes "truthyStr pat"
  shows "\<exists>l' c' ys. request l c pat (map tooManyRequests hs @ Success x # rest)
              = (Some (Inr x), l', c', rest)
           \<and> sleeps c' = sleeps c @ ys
           \<and> subseq (map (\<lambda>h. retryAfterOf (axiosError (Some 429) h) * 1000) hs) ys"
proof (induction hs arbitrary: l c)
  case Nil
  obtain l1 c1 where t: "throttle l c = (l1, c1)" by (cases "throttle l c")
  obtain ys where "sleeps c1 = sleeps c @ ys" using throttle_sleeps [of l c] t by auto
  then show ?case using assms t by simp
next
  case (Cons h hs)
  obtain l1 c1 where t: "throttle l c = (l1, c1)" by (cases "throttle l c")
  obtain ys0 where y0: "sleeps c1 = sleeps c @ ys0" using throttle_sleeps [of l c] t by auto
  define d where "d = retryAfterOf (axiosError (Some 429) h) * 1000"
  define l2 where "l2 = l1\<lparr>requestCount := 0, windowStart := clockNow (sleep d c1)\<rparr>"
  have s: "request l c pat (map tooManyRequests (h # hs) @ Success x # rest)
      = request l2 (sleep d c1) pat (map tooManyRequests hs @ Success x # rest)"
    using request_429_step [OF assms, of l c h "map tooManyRequests hs @ Success x # rest"] t
    by (simp add: d_def l2_def del: request.simps)
  obtain l' c' ys1 where
    r: "request l2 (sleep d c1) pat (map tooManyRequests hs @ Success x # rest)
          = (Some (Inr x), l', c', rest)"
    and y1: "sleeps c' = sleeps (sleep d c1) @ ys1"
    and e: "subseq (map (\<lambda>h. retryAfterOf (axiosError (Some 429) h) * 1000) hs) ys1"
    using Cons.IH [of l2 "sleep d c1"] by blast
  have y: "sleeps c' = sleeps c @ (ys0 @ d # ys1)"
    using y0 y1 by (simp add: sleep_def)
  have "subseq (d # map (\<lambda>h. retryAfterOf (axiosError (Some 429) h) * 1000) hs) (d # ys1)"
    using e by simp
  then have "subseq (d # map (\<lambda>h. retryAfterOf (axiosError (Some 429) h) * 1000) hs)
      (ys0 @ d # ys1)"
    by (rule list_emb_append2)
  then have sub: "subseq (map (\<lambda>h. retryAfterOf (axiosError (Some 429) h) * 1000) (h # hs))
      (ys0 @ d # ys1)"
    by (simp add: d_def)
  note r' = trans [OF s r]
  show ?case
    apply (rule exI [of _ l'], rule exI [of _ c'], rule exI [of _ "ys0 @ d # ys1"])
    apply (intro conjI)
      apply (rule r')
     apply (rule y)
    apply (rule sub)
    done
qed

lemma request_fails_sleeps:
  assumes "truthyStr pat" and "st \<noteq> Some 429"
  shows "\<exists>l' c' ys. request l c pat (map tooManyRequests hs @ Failure st h' # rest)
              = (Some (Inl (Http (axiosError st h'))), l', c', rest)
           \<and> sleeps c' = sleeps c @ ys
           \<and> subseq (map (\<lambda>h. retryAfterOf (axiosError (Some 429) h) * 1000) hs) ys"
proof (induction hs arbitrary: l c)
  case Nil
  obtain l1 c1 where t: "throttle l c = (l1, c1)" by (cases "throttle l c")
  obtain ys where "sleeps c1 = sleeps c @ ys" using throttle_sleeps [of l c] t by auto
  then show ?case using assms t by (simp add: axiosError_def)
next
  case (Cons h hs)
  obtain l1 c1 where t: "throttle l c = (l1, c1)" by (cases "throttle l c")
  obtain ys0 where y0: "sleeps c1 = sleeps c @ ys0" using throttle_sleeps [of l c] t by auto
  define d where "d = retryAfterOf (axiosError (Some 429) h) * 1000"
  define l2 where "l2 = l1\<lparr>requestCount := 0, windowStart := clockNow (sleep d c1)\<rparr>"
  have s: "request l c pat (map tooManyRequests (h # hs) @ Failure st h' # rest)
      = request l2 (sleep d c1) pat (map tooManyRequests hs @ Failure st h' # rest)"
    using request_429_step [OF assms(1), of l c h "map tooManyRequests hs @ Failure st h' # rest"] t
    by (simp add: d_def l2_def del: request.simps)
  obtain l' c' ys1 where
    r: "request l2 (sleep d c1) pat (map tooManyRequests hs @ Failure st h' # rest)
          = (Some (Inl (Http (axiosError st h'))), l', c', rest)"
    and y1: "sleeps c' = sleeps (sleep d c1) @ ys1"
    and e: "subseq (map (\<lambda>h. retryAfterOf (axiosError (Some 429) h) * 1000) hs) ys1"
    using Cons.IH [of l2 "sleep d c1"] by blast
  have y: "sleeps c' = sleeps c @ (ys0 @ d # ys1)"
    using y0 y1 by (simp add: sleep_def)
  have "subseq (d # map (\<lambda>h. retryAfterOf (axiosError (Some 429) h) * 1000) hs) (d # ys1)"
    using e by simp
  then have "subseq (d # map (\<lambda>h. retryAfterOf (axiosError (Some 429) h) * 1000) hs)
      (ys0 @ d # ys1)"
    by (rule list_emb_append2)
  then have sub: "subseq (map (\<lambda>h. retryAfterOf (axiosError (Some 429) h) * 1000) (h # hs))
      (ys0 @ d # ys1)"
    by (simp add: d_def)
  note r' = trans [OF s r]
  show ?case
    apply (rule exI [of _ l'], rule exI [of _ c'], rule exI [of _ "ys0 @ d # ys1"])
    apply (intro conjI)
      apply (rule r')
     apply (rule y)
    apply (rule sub)
    done
qed

text \<open>
  C5, as the claim states it: the server answers the request with a 429 whose
  \<open>retry-after\<close> header is \<open>0\<close>, its first replay with a 429 without the header, and the
  second replay with success.  The header \<open>0\<close> is present and parsable, yet the client
  suspends for 60 s, not for the 0 s the server specified.  The second 429 does not
  propagate as a failure: the request is replayed again, after a second suspension, and
  succeeds.
\<close>

theorem request_second_429_replayed:
  "request (newRateLimiter None None clock0) clock0 (Some ''pat'')
     [tooManyRequests (Some ''0''), tooManyRequests None, Success ''ok'']
   = (Some (Inr ''ok''),
      \<lparr>requestCount = 1, windowStart = 120000, maxRequestsPerMinute = 100, windowMs = 60000\<rparr>,
      \<lparr>clockNow = 120000, sleeps = [60000, 60000]\<rparr>, [])"
  by (simp add: newRateLimiter_def clock0_def tooManyRequests_def axiosError_def throttle_def
      Let_def handleRetryAfter_def sleep_def retryAfterOf_def parseInt10_def isSpace_def
      isDigit_def digitsValue_def truthyStr_def)

text \<open>
  C5, amended.  A request that receives a 429 suspends for the retry-after delay the
  server specified, in seconds (60 when the header is absent, cannot be parsed or is
  zero), resets the counter and replays the request through the same interceptors, so a
  429 on a replay is handled in the same way.  After any number of consecutive 429 replies
  the request has been sent once more than it received a 429, has suspended for the delay
  of each 429 in turn, and settles with the first reply that is not a 429: with its data
  when that is a success, as a failure with its error otherwise.
\<close>

theorem request_replays_every_429:
  assumes "truthyStr pat"
  shows "request l c pat (tooManyRequests h # rest) =
     (case throttle l c of
        (l1, c1) \<Rightarrow>
          request (l1\<lparr>requestCount := 0,
                       windowStart :=
                         clockNow (sleep (retryAfterOf (axiosError (Some 429) h) * 1000) c1)\<rparr>)
            (sleep (retryAfterOf (axiosError (Some 429) h) * 1000) c1) pat rest)
   \<and> retryAfterOf (axiosError (Some 429) None) = 60
   \<and> (ds \<noteq> [] \<and> list_all isDigit ds \<longrightarrow>
        retryAfterOf (axiosError (Some 429) (Some ds))
          = (if digitsValue ds = 0 then 60 else digitsValue ds))
   \<and> ((case dropWhile isSpace s of
          [] \<Rightarrow> True
        | ch # t \<Rightarrow> \<not> isDigit ch \<and> ch \<noteq> CHR ''-'' \<and> ch \<noteq> CHR ''+'') \<longrightarrow>
        retryAfterOf (axiosError (Some 429) (Some s)) = 60)
   \<and> (\<exists>l' c' ys. request l c pat (map tooManyRequests hs @ Success x # rest)
                     = (Some (Inr x), l', c', rest)
         \<and> sleeps c' = sleeps c @ ys
         \<and> subseq (map (\<lambda>h. retryAfterOf (axiosError (Some 429) h) * 1000) hs) ys)
   \<and> (st \<noteq> Some 429 \<longrightarrow>
        (\<exists>l' c' ys. request l c pat (map tooManyRequests hs @ Failure st h' # rest)
                     = (Some (Inl (Http (axiosError st h'))), l', c', rest)
         \<and> sleeps c' = sleeps c @ ys
         \<and> subseq (map (\<lambda>h. retryAfterOf (axiosError (Some 429) h) * 1000) hs) ys))"
proof -
  note a = request_429_step [OF assms, of l c h rest]
  note b = retryAfterOf_absent [of "Some 429"]
  have c: "ds \<noteq> [] \<and> list_all isDigit ds \<longrightarrow>
        retryAfterOf (axiosError (Some 429) (Some ds))
          = (if digitsValue ds = 0 then 60 else digitsValue ds)"
    using retryAfterOf_digits [of ds "Some 429"] by blast
  have d: "(case dropWhile isSpace s of
          [] \<Rightarrow> True
        | ch # t \<Rightarrow> \<not> isDigit ch \<and> ch \<noteq> CHR ''-'' \<and> ch \<noteq> CHR ''+'') \<longrightarrow>
        retryAfterOf (axiosError (Some 429) (Some s)) = 60"
    using retryAfterOf_unparsable [of s "Some 429"] by blast
  note e = request_settles_sleeps [OF assms, of l c hs x rest]
  have f: "st \<noteq> Some 429 \<longrightarrow>
        (\<exists>l' c' ys. request l c pat (map tooManyRequests hs @ Failure st h' # rest)
                     = (Some (Inl (Http (axiosError st h'))), l', c', rest)
         \<and> sleeps c' = sleeps c @ ys
         \<and> subseq (map (\<lambda>h. retryAfterOf (axiosError (Some 429) h) * 1000) hs) ys)"
    using request_fails_sleeps [OF assms, of st l c hs h' rest] by blast
  show ?thesis using a b c d e f by blast
qed


theorem request_replays_every_429_witness:
  "truthyStr (Some ''pat'')
   \<and> ''30'' \<noteq> [] \<and> list_all isDigit ''30''
   \<and> retryAfterOf (axiosError (Some 429) (Some ''30'')) = 30
   \<and> retryAfterOf (axiosError (Some 429) (Some ''Wed, 21 Oct 2015 07:28:00 GMT'')) = 60
   \<and> Some 503 \<noteq> Some (429::int)
   \<and> (\<exists>l' c' ys.
         request (newRateLimiter None None clock0) clock0 (Some ''pat'')
           (map tooManyRequests [Some ''0'', None, Some ''30''] @ Success ''ok'' # [])
           = (Some (Inr ''ok''), l', c', [])
         \<and> sleeps c' = sleeps clock0 @ ys
         \<and> subseq [60000, 60000, 30000] ys)
   \<and> (\<exists>l' c' ys.
         request (newRateLimiter None None clock0) clock0 (Some ''pat'')
           (map tooManyRequests [Some ''0'', None, Some ''30''] @ Failure (Some 503) None # [])
           = (Some (Inl (Http (axiosError (Some 503) None)) :: clientError + string), l', c', [])
         \<and> sleeps c' = sleeps clock0 @ ys
         \<and> subseq [60000, 60000, 30000] ys)"
  using request_replays_every_429
    [where pat = "Some ''pat''" and l = "newRateLimiter None None clock0" and c = clock0
       and h = "Some ''30''" and rest = "[]" and ds = "''30''"
       and s = "''Wed, 21 Oct 2015 07:28:00 GMT''"
       and hs = "[Some ''0'', None, Some ''30'']" and x = "''ok''"
       and st = "Some 503" and h' = None]
  by (simp add: truthyStr_def isDigit_def digitsValue_def isSpace_def retryAfterOf_def
        parseInt10_def axiosError_def tooManyRequests_def newRateLimiter_def clock0_def
        throttle_def handleRetryAfter_def sleep_def Let_def)

section \<open>Hierarchy\<close>

text \<open>The equations of the traversals with the allocation written out.\<close>

lemma traverse_Cons:
  "traverse (WorkItem p a cs # items) par dep h =
     (case traverse cs (Some (WorkItemWithParent p (next_free h) cs par dep)) (dep + 1)
             \<lparr>cells = (cells h)(next_free h := cells h a), next_free = Suc (next_free h)\<rparr> of
        (sub, h2) \<Rightarrow>
          (case traverse items par dep h2 of
             (others, h3) \<Rightarrow> (WorkItemWithParent p (next_free h) cs par dep # sub @ others, h3)))"
  by (cases cs) (simp_all add: newObject_def Let_def)

lemma traverseReverse_Cons:
  "traverseReverse (WorkItem p a cs # items) par dep h =
     (case traverseReverse cs (Some (WorkItemWithParent p (next_free h) cs par dep)) (dep + 1)
             \<lparr>cells = (cells h)(next_free h := cells h a), next_free = Suc (next_free h)\<rparr> of
        (sub, h2) \<Rightarrow>
          (case traverseReverse items par dep h2 of
             (others, h3) \<Rightarrow> (sub @ WorkItemWithParent p (next_free h) cs par dep # others, h3)))"
  by (cases cs) (simp_all add: newObject_def Let_def)

lemma traverse_content:
  "map copyContent (fst (traverse ws par dep h)) = map nodeContent (preorder ws)"
proof (induction ws arbitrary: par dep h rule: preorder.induct)
  case 1
  then show ?case by simp
next
  case (2 p a cs items)
  define x where "x = WorkItemWithParent p (next_free h) cs par dep"
  define h1 where "h1 = \<lparr>cells = (cells h)(next_free h := cells h a), next_free = Suc (next_free h)\<rparr>"
  obtain sub h2 where s: "traverse cs (Some x) (dep + 1) h1 = (sub, h2)"
    by (cases "traverse cs (Some x) (dep + 1) h1") 
  obtain others h3 where ot: "traverse items par dep h2 = (others, h3)"
    by (cases "traverse items par dep h2") 
  have t: "traverse (WorkItem p a cs # items) par dep h = (x # sub @ others, h3)"
    using s ot by (simp add: traverse_Cons x_def h1_def del: traverse.simps(2))
  have "map copyContent sub = map nodeContent (preorder cs)"
    using 2(1) [of "Some x" "dep + 1" h1] s by simp
  moreover have "map copyContent others = map nodeContent (preorder items)"
    using 2(2) [of par dep h2] ot by simp
  moreover have "copyContent x = nodeContent (WorkItem p a cs)"
    by (simp add: copyContent_def nodeContent_def x_def)
  ultimately show ?case
    unfolding t by simp
qed

lemma traverseReverse_content:
  "map copyContent (fst (traverseReverse ws par dep h)) = map nodeContent (postorder ws)"
proof (induction ws arbitrary: par dep h rule: postorder.induct)
  case 1
  then show ?case by simp
next
  case (2 p a cs items)
  define x where "x = WorkItemWithParent p (next_free h) cs par dep"
  define h1 where "h1 = \<lparr>cells = (cells h)(next_free h := cells h a), next_free = Suc (next_free h)\<rparr>"
  obtain sub h2 where s: "traverseReverse cs (Some x) (dep + 1) h1 = (sub, h2)"
    by (cases "traverseReverse cs (Some x) (dep + 1) h1")
  obtain others h3 where ot: "traverseReverse items par dep h2 = (others, h3)"
    by (cases "traverseReverse items par dep h2")
  have t: "traverseReverse (WorkItem p a cs # items) par dep h = (sub @ x # others, h3)"
    using s ot by (simp add: traverseReverse_Cons x_def h1_def del: traverseReverse.simps(2))
  have "map copyContent sub = map nodeContent (postorder cs)"
    using 2(1) [of "Some x" "dep + 1" h1] s by simp
  moreover have "map copyContent others = map nodeContent (postorder items)"
    using 2(2) [of par dep h2] ot by simp
  moreover have "copyContent x = nodeContent (WorkItem p a cs)"
    by (simp add: copyContent_def nodeContent_def x_def)
  ultimately show ?case
    unfolding t by simp
qed

lemma mset_postorder: "mset (postorder ws) = mset (preorder ws)"
  by (induction ws rule: preorder.induct) simp_all

lemma parentOk_mono:
  "set seen \<subseteq> set seen' \<Longrightarrow> parentOk roots seen x \<Longrightarrow> parentOk roots seen' x"
  by (auto simp: parentOk_def split: option.splits)

lemma parentsSeen_mono:
  "set seen \<subseteq> set seen' \<Longrightarrow> parentsSeen roots seen xs \<Longrightarrow> parentsSeen roots seen' xs"
proof (induction xs arbitrary: seen seen')
  case Nil
  then show ?case by simp
next
  case (Cons x xs)
  from Cons.prems have "parentOk roots seen' x" by (auto intro: parentOk_mono)
  moreover have "parentsSeen roots (x # seen') xs"
  proof (rule Cons.IH [of "x # seen" "x # seen'"])
    show "set (x # seen) \<subseteq> set (x # seen')" using Cons.prems(1) by auto
    show "parentsSeen roots (x # seen) xs" using Cons.prems(2) by simp
  qed
  ultimately show ?case by simp
qed

lemma parentsSeen_append:
  "parentsSeen roots seen (xs @ ys) =
     (parentsSeen roots seen xs \<and> parentsSeen roots (rev xs @ seen) ys)"
  by (induction xs arbitrary: seen) simp_all

lemma topOk_parentOk:
  "topOk roots seen par dep ws \<Longrightarrow> WorkItem p a cs \<in> set ws
     \<Longrightarrow> parentOk roots seen (WorkItemWithParent p r cs par dep)"
  by (force simp: topOk_def parentOk_def copyContent_def nodeContent_def split: option.splits)

lemma topOk_mono:
  "topOk roots seen par dep ws \<Longrightarrow> set seen \<subseteq> set seen' \<Longrightarrow> set ws' \<subseteq> set ws
     \<Longrightarrow> topOk roots seen' par dep ws'"
  by (auto simp: topOk_def split: option.splits)

lemma topOk_child:
  "topOk roots (WorkItemWithParent p r cs par dep # seen)
     (Some (WorkItemWithParent p r cs par dep)) (dep + 1) cs"
  by (simp add: topOk_def)

lemma traverse_parentsSeen:
  "topOk roots seen par dep ws \<Longrightarrow> parentsSeen roots seen (fst (traverse ws par dep h))"
proof (induction ws arbitrary: par dep h seen rule: preorder.induct)
  case 1
  then show ?case by simp
next
  case (2 p a cs items)
  define x where "x = WorkItemWithParent p (next_free h) cs par dep"
  define h1 where "h1 = \<lparr>cells = (cells h)(next_free h := cells h a), next_free = Suc (next_free h)\<rparr>"
  obtain sub h2 where s: "traverse cs (Some x) (dep + 1) h1 = (sub, h2)"
    by (cases "traverse cs (Some x) (dep + 1) h1")
  obtain others h3 where ot: "traverse items par dep h2 = (others, h3)"
    by (cases "traverse items par dep h2")
  have t: "traverse (WorkItem p a cs # items) par dep h = (x # sub @ others, h3)"
    using s ot by (simp add: traverse_Cons x_def h1_def del: traverse.simps(2))
  have a: "parentOk roots seen x"
    unfolding x_def using "2.prems" by (rule topOk_parentOk [where a = a]) simp
  have "parentsSeen roots (x # seen) (fst (traverse cs (Some x) (dep + 1) h1))"
    unfolding x_def by (rule "2.IH"(1)) (rule topOk_child)
  then have b: "parentsSeen roots (x # seen) sub" using s by simp
  have "topOk roots (rev sub @ x # seen) par dep items"
    using "2.prems" by (rule topOk_mono) auto
  then have "parentsSeen roots (rev sub @ x # seen) (fst (traverse items par dep h2))"
    by (rule "2.IH"(2))
  then have c: "parentsSeen roots (rev sub @ x # seen) others" using ot by simp
  show ?case unfolding t using a b c by (simp add: parentsSeen_append)
qed

lemma traverseReverse_parentsSeen:
  "topOk roots seen par dep ws
     \<Longrightarrow> parentsSeen roots seen (rev (fst (traverseReverse ws par dep h)))"
proof (induction ws arbitrary: par dep h seen rule: preorder.induct)
  case 1
  then show ?case by simp
next
  case (2 p a cs items)
  define x where "x = WorkItemWithParent p (next_free h) cs par dep"
  define h1 where "h1 = \<lparr>cells = (cells h)(next_free h := cells h a), next_free = Suc (next_free h)\<rparr>"
  obtain sub h2 where s: "traverseReverse cs (Some x) (dep + 1) h1 = (sub, h2)"
    by (cases "traverseReverse cs (Some x) (dep + 1) h1")
  obtain others h3 where ot: "traverseReverse items par dep h2 = (others, h3)"
    by (cases "traverseReverse items par dep h2")
  have t: "traverseReverse (WorkItem p a cs # items) par dep h = (sub @ x # others, h3)"
    using s ot by (simp add: traverseReverse_Cons x_def h1_def del: traverseReverse.simps(2))
  have "topOk roots seen par dep items"
    using "2.prems" by (rule topOk_mono) auto
  then have "parentsSeen roots seen (rev (fst (traverseReverse items par dep h2)))"
    by (rule "2.IH"(2))
  then have c: "parentsSeen roots seen (rev others)" using ot by simp
  have "parentOk roots seen x"
    unfolding x_def using "2.prems" by (rule topOk_parentOk [where a = a]) simp
  then have a: "parentOk roots (others @ seen) x"
    by (rule parentOk_mono [rotated]) auto
  have "parentsSeen roots (x # others @ seen)
          (rev (fst (traverseReverse cs (Some x) (dep + 1) h1)))"
    unfolding x_def by (rule "2.IH"(1)) (rule topOk_child)
  then have b: "parentsSeen roots (x # others @ seen) (rev sub)" using s by simp
  show ?case unfolding t using a b c by (simp add: parentsSeen_append)
qed

lemma parentsSeen_nth:
  "parentsSeen roots seen xs \<Longrightarrow> i < length xs
     \<Longrightarrow> parentOk roots (rev (take i xs) @ seen) (xs ! i)"
proof (induction xs arbitrary: seen i)
  case Nil
  then show ?case by simp
next
  case (Cons x xs)
  show ?case
  proof (cases i)
    case 0
    with Cons.prems show ?thesis by simp
  next
    case (Suc k)
    with Cons.prems have "parentOk roots (rev (take k xs) @ x # seen) (xs ! k)"
      by (auto intro: Cons.IH)
    with Suc show ?thesis by simp
  qed
qed

lemma in_take_nth: "q \<in> set (take i xs) \<Longrightarrow> \<exists>j<i. j < length xs \<and> xs ! j = q"
  by (auto simp: in_set_conv_nth)

lemma in_take_rev_nth:
  assumes "q \<in> set (take (length xs - Suc i) (rev xs))" and "i < length xs"
  shows "\<exists>j. i < j \<and> j < length xs \<and> xs ! j = q"
proof -
  from assms(1) obtain m where m: "m < length xs - Suc i" "m < length xs" "rev xs ! m = q"
    using in_take_nth [of q "length xs - Suc i" "rev xs"] by auto
  then have "xs ! (length xs - Suc m) = q" by (simp add: rev_nth)
  moreover have "i < length xs - Suc m" "length xs - Suc m < length xs" using m assms(2) by arith+
  ultimately show ?thesis by blast
qed

text \<open>
  C7.  \<open>flattenHierarchy\<close> returns one object for each node of the document, in pre-order:
  the list of what identifies the objects is the pre-order list of what identifies the
  nodes.  An object without parent has depth \<open>0\<close> and is made for a root; the parent of any
  other object stands strictly before it in the list, one level above, and the object is
  made for one of the children of that parent.  \<open>flattenHierarchyReverse\<close> returns the same
  nodes in post-order, and there the parent of an object stands strictly after it.
\<close>

theorem flattenHierarchy_order:
  "map copyContent (fst (flattenHierarchy doc h)) = map nodeContent (preorder (workItems doc))
   \<and> (\<forall>i. i < length (fst (flattenHierarchy doc h)) \<longrightarrow>
        (case parent (fst (flattenHierarchy doc h) ! i) of
           None \<Rightarrow> depth (fst (flattenHierarchy doc h) ! i) = 0
             \<and> copyContent (fst (flattenHierarchy doc h) ! i) \<in> nodeContent ` set (workItems doc)
         | Some q \<Rightarrow> (\<exists>j<i. fst (flattenHierarchy doc h) ! j = q)
             \<and> depth (fst (flattenHierarchy doc h) ! i) = depth q + 1
             \<and> copyContent (fst (flattenHierarchy doc h) ! i) \<in> nodeContent ` set (wp_children q)))
   \<and> map copyContent (fst (flattenHierarchyReverse doc h))
       = map nodeContent (postorder (workItems doc))
   \<and> mset (postorder (workItems doc)) = mset (preorder (workItems doc))
   \<and> (\<forall>i. i < length (fst (flattenHierarchyReverse doc h)) \<longrightarrow>
        (case parent (fst (flattenHierarchyReverse doc h) ! i) of
           None \<Rightarrow> depth (fst (flattenHierarchyReverse doc h) ! i) = 0
             \<and> copyContent (fst (flattenHierarchyReverse doc h) ! i)
                 \<in> nodeContent ` set (workItems doc)
         | Some q \<Rightarrow>
             (\<exists>j. i < j \<and> j < length (fst (flattenHierarchyReverse doc h))
                  \<and> fst (flattenHierarchyReverse doc h) ! j = q)
             \<and> depth (fst (flattenHierarchyReverse doc h) ! i) = depth q + 1
             \<and> copyContent (fst (flattenHierarchyReverse doc h) ! i)
                 \<in> nodeContent ` set (wp_children q)))"
proof -
  let ?flat = "fst (flattenHierarchy doc h)"
  let ?flatR = "fst (flattenHierarchyReverse doc h)"
  let ?roots = "workItems doc"
  have top: "topOk ?roots [] None 0 ?roots" by (simp add: topOk_def)
  have ps: "parentsSeen ?roots [] ?flat"
    unfolding flattenHierarchy_def using top by (rule traverse_parentsSeen)
  have psR: "parentsSeen ?roots [] (rev ?flatR)"
    unfolding flattenHierarchyReverse_def using top by (rule traverseReverse_parentsSeen)
  have pre: "\<forall>i. i < length ?flat \<longrightarrow>
        (case parent (?flat ! i) of
           None \<Rightarrow> depth (?flat ! i) = 0 \<and> copyContent (?flat ! i) \<in> nodeContent ` set ?roots
         | Some q \<Rightarrow> (\<exists>j<i. ?flat ! j = q) \<and> depth (?flat ! i) = depth q + 1
             \<and> copyContent (?flat ! i) \<in> nodeContent ` set (wp_children q))"
  proof (intro allI impI)
    fix i assume i: "i < length ?flat"
    from parentsSeen_nth [OF ps i]
    have "parentOk ?roots (rev (take i ?flat)) (?flat ! i)" by simp
    then show "case parent (?flat ! i) of
           None \<Rightarrow> depth (?flat ! i) = 0 \<and> copyContent (?flat ! i) \<in> nodeContent ` set ?roots
         | Some q \<Rightarrow> (\<exists>j<i. ?flat ! j = q) \<and> depth (?flat ! i) = depth q + 1
             \<and> copyContent (?flat ! i) \<in> nodeContent ` set (wp_children q)"
      using in_take_nth [of _ i ?flat]
      by (auto simp: parentOk_def split: option.splits)
  qed
  have post: "\<forall>i. i < length ?flatR \<longrightarrow>
        (case parent (?flatR ! i) of
           None \<Rightarrow> depth (?flatR ! i) = 0 \<and> copyContent (?flatR ! i) \<in> nodeContent ` set ?roots
         | Some q \<Rightarrow> (\<exists>j. i < j \<and> j < length ?flatR \<and> ?flatR ! j = q)
             \<and> depth (?flatR ! i) = depth q + 1
             \<and> copyContent (?flatR ! i) \<in> nodeContent ` set (wp_children q))"
  proof (intro allI impI)
    fix i assume i: "i < length ?flatR"
    then have k: "length ?flatR - Suc i < length (rev ?flatR)" by simp
    have e: "rev ?flatR ! (length ?flatR - Suc i) = ?flatR ! i"
      using i by (simp add: rev_nth)
    from parentsSeen_nth [OF psR k]
    have "parentOk ?roots (rev (take (length ?flatR - Suc i) (rev ?flatR))) (?flatR ! i)"
      using e by simp
    then show "case parent (?flatR ! i) of
           None \<Rightarrow> depth (?flatR ! i) = 0 \<and> copyContent (?flatR ! i) \<in> nodeContent ` set ?roots
         | Some q \<Rightarrow> (\<exists>j. i < j \<and> j < length ?flatR \<and> ?flatR ! j = q)
             \<and> depth (?flatR ! i) = depth q + 1
             \<and> copyContent (?flatR ! i) \<in> nodeContent ` set (wp_children q)"
      using in_take_rev_nth [of _ ?flatR i] i
      by (auto simp: parentOk_def split: option.splits)
  qed
  have c1: "map copyContent ?flat = map nodeContent (preorder ?roots)"
    unfolding flattenHierarchy_def by (rule traverse_content)
  have c2: "map copyContent ?flatR = map nodeContent (postorder ?roots)"
    unfolding flattenHierarchyReverse_def by (rule traverseReverse_content)
  from c1 pre c2 mset_postorder [of ?roots] post show ?thesis by blast
qed

lemma wid_mockWorkItem: "wid (mockWorkItem i t) = i"
  by (simp add: mockWorkItem_def)

lemma flattenHierarchy_example: "map (\<lambda>x. (wid (wp_props x), wp_ado x, depth x, map_option (wid \<circ> wp_props) (parent x)))
     (fst (flattenHierarchy mockDocument (emptyHeap 4)))
   = [(''epic-001'', 4, 0, None), (''feat-001'', 5, 1, Some ''epic-001''),
      (''pbi-001'', 6, 2, Some ''feat-001''), (''pbi-002'', 7, 2, Some ''feat-001'')]"
  by (simp add: flattenHierarchy_def mockDocument_def emptyHeap_def traverse_Cons
        wid_mockWorkItem del: traverse.simps(2))

lemma flattenHierarchyReverse_example: "map (\<lambda>x. (wid (wp_props x), wp_ado x, depth x, map_option (wid \<circ> wp_props) (parent x)))
     (fst (flattenHierarchyReverse mockDocument (emptyHeap 4)))
   = [(''pbi-001'', 6, 2, Some ''feat-001''), (''pbi-002'', 7, 2, Some ''feat-001''),
      (''feat-001'', 5, 1, Some ''epic-001''), (''epic-001'', 4, 0, None)]"
  by (simp add: flattenHierarchyReverse_def mockDocument_def emptyHeap_def traverseReverse_Cons
        wid_mockWorkItem del: traverseReverse.simps(2))

theorem flattenHierarchy_order_witness:
  "(2::nat) < length (fst (flattenHierarchy mockDocument (emptyHeap 4)))
   \<and> map (wid \<circ> wp_props) (fst (flattenHierarchy mockDocument (emptyHeap 4)))
       = [''epic-001'', ''feat-001'', ''pbi-001'', ''pbi-002'']
   \<and> map depth (fst (flattenHierarchy mockDocument (emptyHeap 4))) = [0, 1, 2, 2]
   \<and> parent (fst (flattenHierarchy mockDocument (emptyHeap 4)) ! 2)
       = Some (fst (flattenHierarchy mockDocument (emptyHeap 4)) ! 1)
   \<and> (0::nat) < length (fst (flattenHierarchyReverse mockDocument (emptyHeap 4)))
   \<and> map (wid \<circ> wp_props) (fst (flattenHierarchyReverse mockDocument (emptyHeap 4)))
       = [''pbi-001'', ''pbi-002'', ''feat-001'', ''epic-001'']
   \<and> parent (fst (flattenHierarchyReverse mockDocument (emptyHeap 4)) ! 0)
       = Some (fst (flattenHierarchyReverse mockDocument (emptyHeap 4)) ! 2)"
  using flattenHierarchy_order [of mockDocument "emptyHeap 4"]
  by (simp add: flattenHierarchy_def flattenHierarchyReverse_def mockDocument_def emptyHeap_def
        traverse_Cons traverseReverse_Cons wid_mockWorkItem
        del: traverse.simps(2) traverseReverse.simps(2))

section \<open>The store during push and pull\<close>

text \<open>
  The traversal only allocates: it leaves every object that exists before it as it is, and
  the objects it returns are new and pairwise distinct.  Each starts with the \<open>_ado\<close> of the
  node it is made for.
\<close>

lemma traverse_store:
  "next_free h \<le> next_free (snd (traverse ws par dep h))
   \<and> (\<forall>a. a < next_free h \<longrightarrow> cells (snd (traverse ws par dep h)) a = cells h a)
   \<and> (\<forall>x \<in> set (fst (traverse ws par dep h)).
         next_free h \<le> wp_ado x \<and> wp_ado x < next_free (snd (traverse ws par dep h)))"
proof (induction ws arbitrary: par dep h rule: preorder.induct)
  case 1
  then show ?case by simp
next
  case (2 p a cs items)
  define x where "x = WorkItemWithParent p (next_free h) cs par dep"
  define h1 where "h1 = \<lparr>cells = (cells h)(next_free h := cells h a), next_free = Suc (next_free h)\<rparr>"
  obtain sub h2 where s: "traverse cs (Some x) (dep + 1) h1 = (sub, h2)"
    by (cases "traverse cs (Some x) (dep + 1) h1")
  obtain others h3 where ot: "traverse items par dep h2 = (others, h3)"
    by (cases "traverse items par dep h2")
  have t: "traverse (WorkItem p a cs # items) par dep h = (x # sub @ others, h3)"
    using s ot by (simp add: traverse_Cons x_def h1_def del: traverse.simps(2))
  have i1: "next_free h1 \<le> next_free h2
     \<and> (\<forall>a. a < next_free h1 \<longrightarrow> cells h2 a = cells h1 a)
     \<and> (\<forall>x \<in> set sub. next_free h1 \<le> wp_ado x \<and> wp_ado x < next_free h2)"
    using "2.IH"(1) [where par = "Some x" and dep = "dep + 1" and h = h1] s by simp
  have i2: "next_free h2 \<le> next_free h3
     \<and> (\<forall>a. a < next_free h2 \<longrightarrow> cells h3 a = cells h2 a)
     \<and> (\<forall>x \<in> set others. next_free h2 \<le> wp_ado x \<and> wp_ado x < next_free h3)"
    using "2.IH"(2) [where par = par and dep = dep and h = h2] ot by simp
  have n1: "next_free h1 = Suc (next_free h)" by (simp add: h1_def)
  have c1: "\<And>b. b < next_free h \<Longrightarrow> cells h1 b = cells h b" by (simp add: h1_def)
  have wx: "wp_ado x = next_free h" by (simp add: x_def)
  show ?case
    unfolding t using i1 i2 n1 c1 wx
    by (auto simp del: traverse.simps(2)) (fastforce+)?
qed



lemma updateItemMetadata_other:
  "a \<noteq> r \<Longrightarrow> cells (updateItemMetadata r md h) a = cells h a"
  by (simp add: updateItemMetadata_def)

lemma pushItem_store:
  "a \<noteq> wp_ado item \<Longrightarrow> cells (snd (snd (pushItem client config options item w h))) a = cells h a"
  by (simp add: pushItem_def updateItemMetadata_other split: prod.splits sum.splits)

lemma pushLoop_store:
  "a \<notin> wp_ado ` set items
     \<Longrightarrow> cells (snd (snd (pushLoop client config options items w h))) a = cells h a"
proof (induction items arbitrary: w h)
  case Nil
  then show ?case by simp
next
  case (Cons item items)
  obtain rs w1 h1 where p: "pushItem client config options item w h = (rs, w1, h1)"
    by (cases "pushItem client config options item w h")
  obtain others w2 h2 where l: "pushLoop client config options items w1 h1 = (others, w2, h2)"
    by (cases "pushLoop client config options items w1 h1")
  have "cells h1 a = cells h a"
    using pushItem_store [of a item client config options w h] p Cons.prems by simp
  moreover have "cells h2 a = cells h1 a"
    using Cons.IH [of w1 h1] l Cons.prems by simp
  ultimately show ?case using p l by simp
qed

text \<open>
  \<open>pushWorkItems\<close> assigns \<open>_ado\<close> only on the objects \<open>flattenHierarchy\<close> has made: every
  object that exists before the run, so every item of the document, has the \<open>_ado\<close> it had.
\<close>

lemma pushWorkItems_store:
  assumes "a < next_free h"
  shows "cells (snd (snd (pushWorkItems matchesFilter client doc config options w h))) a = cells h a"
proof -
  obtain items h0 where f: "flattenHierarchy doc h = (items, h0)"
    by (cases "flattenHierarchy doc h")
  have k: "cells h0 a = cells h a"
    and fr: "\<forall>x \<in> set items. next_free h \<le> wp_ado x"
    using traverse_store [of h "workItems doc" None 0] f assms
    by (simp_all add: flattenHierarchy_def)
  let ?flt = "filter (\<lambda>item. matchesFilter (wid (wp_props item))
                 (case po_filter options of None \<Rightarrow> ''*'' | Some f \<Rightarrow> f)) items"
  have "a \<notin> wp_ado ` set ?flt" using fr assms by auto
  then have "cells (snd (snd (pushLoop client config options ?flt w h0))) a = cells h0 a"
    by (rule pushLoop_store)
  with k show ?thesis by (simp add: pushWorkItems_def f Let_def)
qed

text \<open>
  C1.  A document with one new item \<open>pbi-001\<close> (the object at address \<open>0\<close>, without \<open>_ado\<close>)
  is pushed; the create succeeds and the item is fetched again at revision \<open>1\<close>.  After the
  run the item of the document still has no \<open>_ado\<close>; the refreshed metadata is on the
  object \<open>flattenHierarchy\<close> made (address \<open>1\<close>).  Likewise for pull: the item records
  revision \<open>1\<close>, the remote is at revision \<open>5\<close>, the pull succeeds, and the item of the
  document still records revision \<open>1\<close>.
\<close>

theorem pushWorkItems_document_not_refreshed:
  "map (\<lambda>r. (localId r, res_action r, success r, res_workItemId r))
      (fst (pushWorkItems (\<lambda>i p. True)
         (mockClient (\<lambda>i. if i = 123 then Some (mockAdoResponse 123 1 ''New Item'') else None)
            (mockAdoResponse 123 1 ''New Item''))
         singleItemDocument mockConfig noPushOptions [] (emptyHeap 1)))
     = [(''pbi-001'', ActCreate, True, Some 123)]
   \<and> cells (snd (snd (pushWorkItems (\<lambda>i p. True)
         (mockClient (\<lambda>i. if i = 123 then Some (mockAdoResponse 123 1 ''New Item'') else None)
            (mockAdoResponse 123 1 ''New Item''))
         singleItemDocument mockConfig noPushOptions [] (emptyHeap 1)))) 0 = None
   \<and> map_option md_rev (cells (snd (snd (pushWorkItems (\<lambda>i p. True)
         (mockClient (\<lambda>i. if i = 123 then Some (mockAdoResponse 123 1 ''New Item'') else None)
            (mockAdoResponse 123 1 ''New Item''))
         singleItemDocument mockConfig noPushOptions [] (emptyHeap 1)))) 1) = Some (Some 1)
   \<and> map_sum id (map (\<lambda>r. (localId r, res_action r, success r, res_workItemId r)))
      (fst (pullWorkItems
         (mockClient (\<lambda>i. if i = 123 then Some (mockAdoResponse 123 5 ''New Item'') else None)
            (mockAdoResponse 123 1 ''New Item''))
         singleItemDocument mockConfig noPullOptions [] linkedHeap))
     = Inr [(''pbi-001'', ActUpdate, True, Some 123)]
   \<and> map_option md_rev (cells (snd (snd (pullWorkItems
         (mockClient (\<lambda>i. if i = 123 then Some (mockAdoResponse 123 5 ''New Item'') else None)
            (mockAdoResponse 123 1 ''New Item''))
         singleItemDocument mockConfig noPullOptions [] linkedHeap))) 0) = Some (Some 1)
   \<and> map_option md_rev (cells (snd (snd (pullWorkItems
         (mockClient (\<lambda>i. if i = 123 then Some (mockAdoResponse 123 5 ''New Item'') else None)
            (mockAdoResponse 123 1 ''New Item''))
         singleItemDocument mockConfig noPullOptions [] linkedHeap))) 1) = Some (Some 5)"
proof -
  have push: "pushWorkItems (\<lambda>i p. True)
         (mockClient (\<lambda>i. if i = 123 then Some (mockAdoResponse 123 1 ''New Item'') else None)
            (mockAdoResponse 123 1 ''New Item''))
         singleItemDocument mockConfig noPushOptions [] (emptyHeap 1)
     = ([\<lparr>localId = ''pbi-001'', res_action = ActCreate, success = True,
          res_workItemId = Some 123,
          res_url = Some (workItemUrl ''test-org'' ''test-project'' (Some 123)),
          error = None, message = Some (''Created work item #'' @ showInt 123)\<rparr>],
        [ReqPost ''Product Backlog Item''
           (buildPatchDocument (applyDefaults (mockWorkItem ''pbi-001'' ''New Item'') mockConfig)),
         ReqGet (Some 123)],
        \<lparr>cells = (\<lambda>a. None)
           (1 := Some (extractAdoMetadata (mockAdoResponse 123 1 ''New Item'') ''test-project''
                         ''test-org'' ''2024-01-15T10:30:00.000Z'')),
         next_free = 2\<rparr>)"
    by (simp add: pushWorkItems_def flattenHierarchy_def singleItemDocument_def emptyHeap_def
          traverse_Cons pushItem_def determineSyncAction_def adoIdOf_def truthyNum_def
          noPushOptions_def decide_def executeAction_def createWorkItem_def getWorkItem_def
          mockClient_def updateItemMetadata_def mergeMetadata_def mockConfig_def
          wid_mockWorkItem extractAdoMetadata_def mockAdoResponse_def mockWorkItem_def
          del: traverse.simps(2))
  have pull: "pullWorkItems
         (mockClient (\<lambda>i. if i = 123 then Some (mockAdoResponse 123 5 ''New Item'') else None)
            (mockAdoResponse 123 1 ''New Item''))
         singleItemDocument mockConfig noPullOptions [] linkedHeap
     = (Inr [\<lparr>localId = ''pbi-001'', res_action = ActUpdate, success = True,
              res_workItemId = Some 123, res_url = None, error = None,
              message = Some (''Pulled updates for #'' @ showInt 123)\<rparr>],
        [ReqBatch [123]],
        \<lparr>cells = (\<lambda>a. if a = 0 then Some (mockAdoMetadata (Some 123) (Some 1)) else None)
           (1 := Some (extractAdoMetadata (mockAdoResponse 123 5 ''New Item'') ''test-project''
                         ''test-org'' ''2024-01-15T10:30:00.000Z'')),
         next_free = 2\<rparr>)"
    by (simp add: pullWorkItems_def flattenHierarchy_def singleItemDocument_def linkedHeap_def
          traverse_Cons pullItem_def adoIdOf_def truthyNum_def noPullOptions_def
          getWorkItems_def List.map_filter_def failedResult_def
          mockClient_def updateItemMetadata_def mergeMetadata_def mockConfig_def
          wid_mockWorkItem extractAdoMetadata_def mockAdoResponse_def mockAdoMetadata_def
          Let_def
          del: traverse.simps(2))
  show ?thesis
    unfolding push pull
    by (simp add: extractAdoMetadata_def mockAdoResponse_def mockAdoMetadata_def)
qed











section \<open>Import\<close>

lemma fetch_nonroot:
  "\<not> isRoot ctx \<Longrightarrow>
     fetchWorkItemTree client stripHtml i config ctx results w
       = fetchWorkItemTree client stripHtml i config (withoutFilters ctx) results w"
proof (induction "nat (maxDepth ctx + 1 - currentDepth ctx)" arbitrary: ctx i results w
         rule: less_induct)
  case less
  show ?case
  proof (cases "currentDepth ctx > maxDepth ctx")
    case True
    then show ?thesis
      by (subst fetchWorkItemTree.simps, subst fetchWorkItemTree.simps)
         (simp add: withoutFilters_def)
  next
    case False
    define ctx1 where
      "ctx1 = ctx\<lparr>currentDepth := currentDepth ctx + 1, isRoot := False,
                   filterDisabled := filterDisabled ctx\<rparr>"
    have m: "nat (maxDepth ctx1 + 1 - currentDepth ctx1) < nat (maxDepth ctx + 1 - currentDepth ctx)"
      using False by (simp add: ctx1_def)
    have nr: "\<not> isRoot ctx1" by (simp add: ctx1_def)
    have tree: "\<And>j rs v. fetchWorkItemTree client stripHtml j config ctx1 rs v
        = fetchWorkItemTree client stripHtml j config (withoutFilters ctx1) rs v"
      using less.hyps [OF m nr] .
    have kids: "\<And>ids rs v. fetchChildren client stripHtml ids config ctx1 False rs v
        = fetchChildren client stripHtml ids config (withoutFilters ctx1) False rs v"
    proof -
      fix ids rs v
      show "fetchChildren client stripHtml ids config ctx1 False rs v
        = fetchChildren client stripHtml ids config (withoutFilters ctx1) False rs v"
      proof (induction ids arbitrary: rs v)
        case Nil
        then show ?case by simp
      next
        case (Cons j ids)
        then show ?case by (simp add: tree split: prod.splits option.splits)
      qed
    qed
    have e: "\<And>d. ctx\<lparr>filterTag := None, filterType := None, currentDepth := d,
                 isRoot := False, filterDisabled := False\<rparr>
               = ctx\<lparr>currentDepth := d, isRoot := False, filterTag := None,
                   filterType := None, filterDisabled := False\<rparr>"
      by (cases ctx) simp
    show ?thesis
      using less.prems False kids
      unfolding ctx1_def withoutFilters_def
      by (subst fetchWorkItemTree.simps, subst fetchWorkItemTree.simps)
         (simp add: Let_def e cong: prod.case_cong sum.case_cong if_cong)
  qed
qed


lemma fetchChildren_nonroot:
  "\<not> isRoot ctx \<Longrightarrow>
     fetchChildren client stripHtml ids config ctx False results w
       = fetchChildren client stripHtml ids config (withoutFilters ctx) False results w"
proof (induction ids arbitrary: results w)
  case Nil
  then show ?case by simp
next
  case (Cons j ids)
  then show ?case
    using fetch_nonroot [of ctx client stripHtml j config]
    by (simp split: prod.splits option.splits)
qed

lemma fetchChildren_filtered:
  "\<not> isRoot ctx \<Longrightarrow>
     fetchChildren client stripHtml ids config ctx True results w
       = (case fetchChildren client stripHtml ids config (withoutFilters ctx) False results w of
            (kids, rs, w1) \<Rightarrow>
              (filter (\<lambda>c. shouldIncludeItem (props c) (filterTag ctx) (filterType ctx)) kids,
               rs, w1))"
proof (induction ids arbitrary: results w)
  case Nil
  then show ?case by simp
next
  case (Cons j ids)
  then show ?case
    using fetch_nonroot [of ctx client stripHtml j config]
    by (simp split: prod.splits option.splits)
qed

lemma shouldIncludeItem_no_filters:
  "\<not> truthyStr tagFilter \<Longrightarrow> \<not> truthyStr typeFilter \<Longrightarrow> shouldIncludeItem item tagFilter typeFilter"
  by (simp add: shouldIncludeItem_def)

lemma fetchWorkItemTree_unfold:
  "fetchWorkItemTree client stripHtml i config ctx results w =
     (if currentDepth ctx > maxDepth ctx then (None, results, w)
      else
        (case fetchItem client stripHtml i config ctx results w of
           Inl (rs1, w1) \<Rightarrow> (None, rs1, w1)
         | Inr (workItem, md2, childIds, rs1, w3) \<Rightarrow>
             (case fetchChildren client stripHtml childIds config
                     (ctx\<lparr>currentDepth := currentDepth ctx + 1, isRoot := False,
                          filterDisabled :=
                            (if (truthyStr (filterTag ctx) \<or> truthyStr (filterType ctx))
                                  \<and> \<not> filterDisabled ctx \<and> isRoot ctx
                             then True else filterDisabled ctx)\<rparr>)
                     ((truthyStr (filterTag ctx) \<or> truthyStr (filterType ctx))
                        \<and> \<not> filterDisabled ctx \<and> isRoot ctx) rs1 w3 of
                (kids, rs2, w4) \<Rightarrow> (Some (WorkItem workItem (Some md2) kids), rs2, w4))))"
proof (cases "currentDepth ctx > maxDepth ctx")
  case True
  then show ?thesis by (subst fetchWorkItemTree.simps) simp
next
  case False
  obtain r w1 where g: "getWorkItem client (Some i) w = (r, w1)"
    by (cases "getWorkItem client (Some i) w")
  show ?thesis
  proof (cases r)
    case (Inl e)
    have "fetchItem client stripHtml i config ctx results w =
        Inl (results @ [\<lparr>ir_adoId = i, ir_localId = ''ado-'' @ showInt i,
                          ir_type = ''Unknown'', ir_title = ''Failed to fetch'',
                          ir_success = False, ir_error = Some e, childCount = 0\<rparr>], w1)"
      using g Inl by (simp add: fetchItem_def)
    moreover have "fetchWorkItemTree client stripHtml i config ctx results w =
        (None, results @ [\<lparr>ir_adoId = i, ir_localId = ''ado-'' @ showInt i,
                          ir_type = ''Unknown'', ir_title = ''Failed to fetch'',
                          ir_success = False, ir_error = Some e, childCount = 0\<rparr>], w1)"
      using g Inl False by (subst fetchWorkItemTree.simps) (simp add: Let_def)
    ultimately show ?thesis using False by simp
  next
    case (Inr adoItem)
    obtain workItem md where t:
      "transformAdoToYaml stripHtml adoItem config (dateNow client w1) = (workItem, md)"
      by (cases "transformAdoToYaml stripHtml adoItem config (dateNow client w1)")
    obtain md1 w2 where c:
      "(if ctx_includeComments ctx
        then (case getAllComments client i w1 of
                (Inl e, w2) \<Rightarrow> (md, w2)
              | (Inr cs, w2) \<Rightarrow> (if length cs > 0 then md\<lparr>comments := Some cs\<rparr> else md, w2))
        else (md, w1)) = (md1, w2)"
      by (cases "(if ctx_includeComments ctx
        then (case getAllComments client i w1 of
                (Inl e, w2) \<Rightarrow> (md, w2)
              | (Inr cs, w2) \<Rightarrow> (if length cs > 0 then md\<lparr>comments := Some cs\<rparr> else md, w2))
        else (md, w1))")
    obtain md2 w3 where p:
      "(if ctx_includePRs ctx
        then (case getLinkedPullRequests client adoItem w2 of
                (Inl e, w3) \<Rightarrow> (md1, w3)
              | (Inr prs, w3) \<Rightarrow>
                  (if length prs > 0 then md1\<lparr>linkedPRs := Some prs\<rparr> else md1, w3))
        else (md1, w2)) = (md2, w3)"
      by (cases "(if ctx_includePRs ctx
        then (case getLinkedPullRequests client adoItem w2 of
                (Inl e, w3) \<Rightarrow> (md1, w3)
              | (Inr prs, w3) \<Rightarrow>
                  (if length prs > 0 then md1\<lparr>linkedPRs := Some prs\<rparr> else md1, w3))
        else (md1, w2))")
    define rs1 where "rs1 = results @
        [\<lparr>ir_adoId = i, ir_localId = wid workItem, ir_type = wtype workItem,
          ir_title = title workItem, ir_success = True, ir_error = None,
          childCount = length (getChildIds adoItem)\<rparr>]"
    have fi: "fetchItem client stripHtml i config ctx results w =
        Inr (workItem, md2, getChildIds adoItem, rs1, w3)"
      unfolding fetchItem_def g Inr rs1_def
      by (simp only: prod.case sum.case t c p)
    define applyF where
      "applyF = ((truthyStr (filterTag ctx) \<or> truthyStr (filterType ctx))
                  \<and> \<not> filterDisabled ctx \<and> isRoot ctx)"
    define ctx1 where
      "ctx1 = ctx\<lparr>currentDepth := currentDepth ctx + 1, isRoot := False,
                  filterDisabled := (if applyF then True else filterDisabled ctx)\<rparr>"
    have ft: "fetchWorkItemTree client stripHtml i config ctx results w =
        (if length (getChildIds adoItem) > 0
         then (case fetchChildren client stripHtml (getChildIds adoItem) config ctx1 applyF rs1 w3 of
                 (kids, rs2, w4) \<Rightarrow> (Some (WorkItem workItem (Some md2) kids), rs2, w4))
         else (Some (WorkItem workItem (Some md2) []), rs1, w3))"
      apply (subst fetchWorkItemTree.simps)
      unfolding Let_def g Inr rs1_def ctx1_def applyF_def
      using False
      by (simp only: prod.case sum.case t c p if_False)
    have ft': "fetchWorkItemTree client stripHtml i config ctx results w =
        (case fetchChildren client stripHtml (getChildIds adoItem) config ctx1 applyF rs1 w3 of
           (kids, rs2, w4) \<Rightarrow> (Some (WorkItem workItem (Some md2) kids), rs2, w4))"
      unfolding ft by (cases "getChildIds adoItem") simp_all
    show ?thesis
      using False unfolding ft' fi
      by (simp add: ctx1_def applyF_def)
  qed
qed


lemma fetchItem_ctx:
  "ctx_includeComments ctx' = ctx_includeComments ctx \<Longrightarrow> ctx_includePRs ctx' = ctx_includePRs ctx
     \<Longrightarrow> fetchItem client stripHtml i config ctx' results w
           = fetchItem client stripHtml i config ctx results w"
  unfolding fetchItem_def by (simp cong: prod.case_cong sum.case_cong if_cong)

lemma fetch_root:
  assumes "isRoot ctx" and "\<not> filterDisabled ctx"
  shows "fetchWorkItemTree client stripHtml i config ctx results w =
     (case fetchWorkItemTree client stripHtml i config
             (ctx\<lparr>filterTag := None, filterType := None\<rparr>) results w of
        (None, rs, w1) \<Rightarrow> (None, rs, w1)
      | (Some t, rs, w1) \<Rightarrow>
          (Some (WorkItem (props t) (ado t)
                   (filter (\<lambda>c. shouldIncludeItem (props c) (filterTag ctx) (filterType ctx))
                      (children t))), rs, w1))"
proof (cases "currentDepth ctx > maxDepth ctx")
  case True
  then show ?thesis by (simp add: fetchWorkItemTree_unfold)
next
  case False
  define ctx0 where "ctx0 = ctx\<lparr>filterTag := None, filterType := None\<rparr>"
  define hasFilters where
    "hasFilters = (truthyStr (filterTag ctx) \<or> truthyStr (filterType ctx))"
  define ctxL where
    "ctxL = ctx\<lparr>currentDepth := currentDepth ctx + 1, isRoot := False,
                 filterDisabled := (if hasFilters then True else filterDisabled ctx)\<rparr>"
  define ctxR where
    "ctxR = ctx0\<lparr>currentDepth := currentDepth ctx0 + 1, isRoot := False,
                  filterDisabled := filterDisabled ctx0\<rparr>"
  have fi0: "fetchItem client stripHtml i config ctx0 results w
      = fetchItem client stripHtml i config ctx results w"
    by (rule fetchItem_ctx) (simp_all add: ctx0_def)
  have d0: "\<not> currentDepth ctx0 > maxDepth ctx0" using False by (simp add: ctx0_def)
  have nf0: "\<not> (truthyStr (filterTag ctx0) \<or> truthyStr (filterType ctx0))"
    by (simp add: ctx0_def truthyStr_def)
  have nrL: "\<not> isRoot ctxL" and nrR: "\<not> isRoot ctxR" by (simp_all add: ctxL_def ctxR_def)
  have wLR: "withoutFilters ctxL = withoutFilters ctxR"
    by (cases ctx) (simp add: withoutFilters_def ctxL_def ctxR_def ctx0_def)
  have tagL: "filterTag ctxL = filterTag ctx" "filterType ctxL = filterType ctx"
    by (simp_all add: ctxL_def)
  have L: "fetchWorkItemTree client stripHtml i config ctx results w =
      (case fetchItem client stripHtml i config ctx results w of
         Inl (rs1, w1) \<Rightarrow> (None, rs1, w1)
       | Inr (workItem, md2, childIds, rs1, w3) \<Rightarrow>
           (case fetchChildren client stripHtml childIds config ctxL hasFilters rs1 w3 of
              (kids, rs2, w4) \<Rightarrow> (Some (WorkItem workItem (Some md2) kids), rs2, w4)))"
    using False assms
    by (simp add: fetchWorkItemTree_unfold [of _ _ _ _ ctx] ctxL_def hasFilters_def
          cong: sum.case_cong prod.case_cong)
  have R: "fetchWorkItemTree client stripHtml i config ctx0 results w =
      (case fetchItem client stripHtml i config ctx results w of
         Inl (rs1, w1) \<Rightarrow> (None, rs1, w1)
       | Inr (workItem, md2, childIds, rs1, w3) \<Rightarrow>
           (case fetchChildren client stripHtml childIds config ctxR False rs1 w3 of
              (kids, rs2, w4) \<Rightarrow> (Some (WorkItem workItem (Some md2) kids), rs2, w4)))"
    using d0 nf0 unfolding ctxR_def fi0 [symmetric]
    by (simp add: fetchWorkItemTree_unfold [of _ _ _ _ ctx0] cong: sum.case_cong prod.case_cong)
  have kids: "\<And>ids rs v. fetchChildren client stripHtml ids config ctxL hasFilters rs v =
      (case fetchChildren client stripHtml ids config ctxR False rs v of
         (kids, rs1, w1) \<Rightarrow>
           (filter (\<lambda>c. shouldIncludeItem (props c) (filterTag ctx) (filterType ctx)) kids,
            rs1, w1))"
  proof -
    fix ids rs v
    have r: "fetchChildren client stripHtml ids config ctxR False rs v
        = fetchChildren client stripHtml ids config (withoutFilters ctxL) False rs v"
      using fetchChildren_nonroot [OF nrR, of client stripHtml ids config rs v] wLR by simp
    show "fetchChildren client stripHtml ids config ctxL hasFilters rs v =
      (case fetchChildren client stripHtml ids config ctxR False rs v of
         (kids, rs1, w1) \<Rightarrow>
           (filter (\<lambda>c. shouldIncludeItem (props c) (filterTag ctx) (filterType ctx)) kids,
            rs1, w1))"
    proof (cases hasFilters)
      case True
      then show ?thesis
        using fetchChildren_filtered [OF nrL, of client stripHtml ids config rs v] r tagL
        by simp
    next
      case False
      then have "\<And>q. shouldIncludeItem q (filterTag ctx) (filterType ctx)"
        by (simp add: hasFilters_def shouldIncludeItem_no_filters)
      with False show ?thesis
        using fetchChildren_nonroot [OF nrL, of client stripHtml ids config rs v] r
        by (simp split: prod.splits)
    qed
  qed
  show ?thesis
    unfolding ctx0_def [symmetric] L R kids
    by (simp split: sum.splits prod.splits)
qed

lemma shouldIncludeItem_ignores_case:
  "shouldIncludeItem ((mockWorkItem ''pbi-1'' ''t'')\<lparr>tags := Some [''Frontend'']\<rparr>)
     (Some ''frontEND'') None
   \<and> shouldIncludeItem
        ((mockWorkItem ''pbi-1'' ''t'')\<lparr>tags := Some [[CHR 0xC9, CHR ''T'', CHR 0xC9]]\<rparr>)
        (Some [CHR 0xE9, CHR ''t'', CHR 0xE9]) None
   \<and> \<not> shouldIncludeItem ((mockWorkItem ''pbi-1'' ''t'')\<lparr>tags := Some [''backend'']\<rparr>)
        (Some ''frontend'') None"
  by code_simp

lemma importFromAdo_example:
  "map_sum id (\<lambda>(doc, results). (map localIds (workItems doc), map ir_localId results))
     (fst (importFromAdo (mockClient importRemote (mockAdoResponse 1 1 ''x'')) id 1 mockConfig
             frontendOnly []))
   = Inr ([[''pbi-1'', ''pbi-2'', ''pbi-4'']], [''pbi-1'', ''pbi-2'', ''pbi-4'', ''pbi-3''])"
  by code_simp

lemma transform_props:
  "fst (transformAdoToYaml stripHtml r config now) = importedProps stripHtml config r"
  by (simp add: transformAdoToYaml_def importedProps_def Let_def)

lemma fetchItem_reads:
  assumes reads: "\<And>i w. map_sum (\<lambda>e. ()) id (fst (getWorkItem client (Some i) w))
                     = (case remote i of None \<Rightarrow> Inl () | Some r \<Rightarrow> Inr r)"
  shows "case remote i of
           None \<Rightarrow> isl (fetchItem client stripHtml i config ctx results w)
         | Some r \<Rightarrow>
             (\<exists>md2 rs1 w3. fetchItem client stripHtml i config ctx results w
                = Inr (importedProps stripHtml config r, md2, getChildIds r, rs1, w3))"
proof -
  obtain x w1 where g: "getWorkItem client (Some i) w = (x, w1)"
    by (cases "getWorkItem client (Some i) w")
  have x: "map_sum (\<lambda>e. ()) id x = (case remote i of None \<Rightarrow> Inl () | Some r \<Rightarrow> Inr r)"
    using reads [of i w] g by simp
  show ?thesis
  proof (cases "remote i")
    case None
    then obtain e where "x = Inl e" using x by (cases x) auto
    then show ?thesis using None g by (simp add: fetchItem_def)
  next
    case (Some r)
    then have xr: "x = Inr r" using x by (cases x) auto
    obtain p md where t: "transformAdoToYaml stripHtml r config (dateNow client w1) = (p, md)"
      by (cases "transformAdoToYaml stripHtml r config (dateNow client w1)")
    have p: "p = importedProps stripHtml config r"
      using transform_props [of stripHtml r config "dateNow client w1"] t by simp
    show ?thesis
      using Some g xr t p unfolding fetchItem_def
      by (auto split: prod.splits)
  qed
qed

lemma skeleton_props: "props (skeleton t) = props t"
  by (cases t) simp

lemma fetch_reads:
  assumes reads: "\<And>i w. map_sum (\<lambda>e. ()) id (fst (getWorkItem client (Some i) w))
                     = (case remote i of None \<Rightarrow> Inl () | Some r \<Rightarrow> Inr r)"
  shows "filterTag ctx = None \<Longrightarrow> filterType ctx = None \<Longrightarrow>
     map_option skeleton (fst (fetchWorkItemTree client stripHtml i config ctx results w))
       = remoteTree remote (importedProps stripHtml config)
           (nat (maxDepth ctx + 1 - currentDepth ctx)) i"
proof (induction "nat (maxDepth ctx + 1 - currentDepth ctx)" arbitrary: ctx i results w)
  case 0
  then have "currentDepth ctx > maxDepth ctx" by simp
  then show ?case using 0 by (simp add: fetchWorkItemTree_unfold)
next
  case (Suc m)
  then have d: "\<not> currentDepth ctx > maxDepth ctx" by simp
  define ctx1 where
    "ctx1 = ctx\<lparr>currentDepth := currentDepth ctx + 1, isRoot := False,
                 filterDisabled := filterDisabled ctx\<rparr>"
  have m: "m = nat (maxDepth ctx1 + 1 - currentDepth ctx1)"
    using Suc.hyps(2) by (simp add: ctx1_def)
  have f1: "filterTag ctx1 = None" "filterType ctx1 = None"
    using Suc.prems by (simp_all add: ctx1_def)
  have tree: "\<And>j rs v.
      map_option skeleton (fst (fetchWorkItemTree client stripHtml j config ctx1 rs v))
        = remoteTree remote (importedProps stripHtml config) m j"
    using Suc.hyps(1) [OF m f1] m by simp
  have kids: "\<And>ids rs v.
      map skeleton (fst (fetchChildren client stripHtml ids config ctx1 False rs v))
        = List.map_filter (\<lambda>c. remoteTree remote (importedProps stripHtml config) m c) ids"
  proof -
    fix ids rs v
    show "map skeleton (fst (fetchChildren client stripHtml ids config ctx1 False rs v))
        = List.map_filter (\<lambda>c. remoteTree remote (importedProps stripHtml config) m c) ids"
    proof (induction ids arbitrary: rs v)
      case Nil
      then show ?case by (simp add: map_filter_simps)
    next
      case (Cons j ids)
      obtain child rs1 v1 where
        c: "fetchWorkItemTree client stripHtml j config ctx1 rs v = (child, rs1, v1)"
        by (cases "fetchWorkItemTree client stripHtml j config ctx1 rs v")
      obtain others rs2 v2 where
        o: "fetchChildren client stripHtml ids config ctx1 False rs1 v1 = (others, rs2, v2)"
        by (cases "fetchChildren client stripHtml ids config ctx1 False rs1 v1")
      have t: "map_option skeleton child
          = remoteTree remote (importedProps stripHtml config) m j"
        using tree [of j rs v] c by simp
      have i: "map skeleton others
          = List.map_filter (\<lambda>c. remoteTree remote (importedProps stripHtml config) m c) ids"
        using Cons.IH [of rs1 v1] o by simp
      show ?case
        using t [symmetric] i by (cases child) (simp_all add: c o map_filter_simps)
    qed
  qed
  have nf: "((truthyStr (filterTag ctx) \<or> truthyStr (filterType ctx))
               \<and> \<not> filterDisabled ctx \<and> isRoot ctx) = False"
    using Suc.prems by (simp add: truthyStr_def)
  have n: "nat (maxDepth ctx + 1 - currentDepth ctx) = Suc m" using Suc.hyps(2) by simp
  show ?case
  proof (cases "remote i")
    case None
    then obtain rs1 w1 where "fetchItem client stripHtml i config ctx results w = Inl (rs1, w1)"
      using fetchItem_reads [OF reads, where i = i and stripHtml = stripHtml and config = config
          and ctx = ctx and results = results and w = w]
      by (cases "fetchItem client stripHtml i config ctx results w") auto
    then show ?thesis
      using d None by (simp add: fetchWorkItemTree_unfold n)
  next
    case (Some r)
    then obtain md2 rs1 w3 where
      fi: "fetchItem client stripHtml i config ctx results w
             = Inr (importedProps stripHtml config r, md2, getChildIds r, rs1, w3)"
      using fetchItem_reads [OF reads, where i = i and stripHtml = stripHtml and config = config
          and ctx = ctx and results = results and w = w] by auto
    obtain ks rs2 w4 where
      k: "fetchChildren client stripHtml (getChildIds r) config ctx1 False rs1 w3 = (ks, rs2, w4)"
      by (cases "fetchChildren client stripHtml (getChildIds r) config ctx1 False rs1 w3")
    have ks: "map skeleton ks
        = List.map_filter (\<lambda>c. remoteTree remote (importedProps stripHtml config) m c)
            (getChildIds r)"
      using kids [of "getChildIds r" rs1 w3] k by simp
    show ?thesis
      unfolding fetchWorkItemTree_unfold [of client stripHtml i config ctx results w] nf n
      using d Some fi k ks by (simp add: ctx1_def [symmetric])
  qed
qed


lemma skeleton_keepMatchingChildren:
  "skeleton (keepMatchingChildren tagFilter typeFilter t)
     = keepMatchingChildren tagFilter typeFilter (skeleton t)"
  by (cases t) (simp add: keepMatchingChildren_def filter_map o_def skeleton_props)

text \<open>
  C8.  An import with a tag filter and/or a type filter builds the tree that the same import
  builds without them, except that the direct children of the root that fail
  \<open>shouldIncludeItem\<close> are left out, each with its whole subtree; it fails in the same cases,
  logs the same results and makes the same remote calls.  When every item is read from a
  table of remote records, the imported tree is the root of the table's tree, whether or
  not the root passes the filter, with those of its direct children that pass it, each with
  all of its descendants down to the depth limit, none of them tested; the import fails
  only when the root is not in the table or the depth limit is negative.
\<close>

theorem importFromAdo_filters_direct_children:
  "map_sum id (\<lambda>(doc, results). (workItems doc, results))
       (fst (importFromAdo client stripHtml parentId config options w))
     = map_sum id
         (\<lambda>(doc, results).
            (map (keepMatchingChildren (io_filterTag options) (io_filterType options))
               (workItems doc), results))
         (fst (importFromAdo client stripHtml parentId config
                 (options\<lparr>io_filterTag := None, io_filterType := None\<rparr>) w))
   \<and> snd (importFromAdo client stripHtml parentId config options w)
     = snd (importFromAdo client stripHtml parentId config
              (options\<lparr>io_filterTag := None, io_filterType := None\<rparr>) w)
   \<and> ((\<forall>i v. map_sum (\<lambda>e. ()) id (fst (getWorkItem client (Some i) v))
                = (case remote i of None \<Rightarrow> Inl () | Some r \<Rightarrow> Inr r)) \<longrightarrow>
        map_sum id (\<lambda>(doc, results). map skeleton (workItems doc))
          (fst (importFromAdo client stripHtml parentId config options w))
        = (case remoteTree remote (importedProps stripHtml config)
                  (nat ((case io_maxDepth options of None \<Rightarrow> 10 | Some d \<Rightarrow> d) + 1)) parentId of
             None \<Rightarrow> Inl (''Could not fetch work item '' @ showInt parentId)
           | Some t \<Rightarrow>
               Inr [keepMatchingChildren (io_filterTag options) (io_filterType options) t]))"
proof -
  have r: "isRoot (rootContext options)" "\<not> filterDisabled (rootContext options)"
    by (simp_all add: rootContext_def)
  have c0: "rootContext (options\<lparr>io_filterTag := None, io_filterType := None\<rparr>)
      = (rootContext options)\<lparr>filterTag := None, filterType := None\<rparr>"
    by (simp add: rootContext_def)
  have f: "filterTag (rootContext options) = io_filterTag options"
    "filterType (rootContext options) = io_filterType options"
    by (simp_all add: rootContext_def)
  obtain t rs w1 where u: "fetchWorkItemTree client stripHtml parentId config
      ((rootContext options)\<lparr>filterTag := None, filterType := None\<rparr>) [] w = (t, rs, w1)"
    by (cases "fetchWorkItemTree client stripHtml parentId config
      ((rootContext options)\<lparr>filterTag := None, filterType := None\<rparr>) [] w")
  have rel: "map_sum id (\<lambda>(doc, results). (workItems doc, results))
       (fst (importFromAdo client stripHtml parentId config options w))
     = map_sum id
         (\<lambda>(doc, results).
            (map (keepMatchingChildren (io_filterTag options) (io_filterType options))
               (workItems doc), results))
         (fst (importFromAdo client stripHtml parentId config
                 (options\<lparr>io_filterTag := None, io_filterType := None\<rparr>) w))
   \<and> snd (importFromAdo client stripHtml parentId config options w)
     = snd (importFromAdo client stripHtml parentId config
              (options\<lparr>io_filterTag := None, io_filterType := None\<rparr>) w)"
    unfolding importFromAdo_def c0 fetch_root [OF r, of client stripHtml parentId config "[]" w] u f
    by (cases t) (simp_all add: keepMatchingChildren_def)
  have ab: "map_sum id (\<lambda>(doc, results). map skeleton (workItems doc))
          (fst (importFromAdo client stripHtml parentId config options w))
        = (case remoteTree remote (importedProps stripHtml config)
                  (nat ((case io_maxDepth options of None \<Rightarrow> 10 | Some d \<Rightarrow> d) + 1)) parentId of
             None \<Rightarrow> Inl (''Could not fetch work item '' @ showInt parentId)
           | Some t \<Rightarrow>
               Inr [keepMatchingChildren (io_filterTag options) (io_filterType options) t])"
    if reads: "\<forall>i v. map_sum (\<lambda>e. ()) id (fst (getWorkItem client (Some i) v))
                = (case remote i of None \<Rightarrow> Inl () | Some r \<Rightarrow> Inr r)"
  proof -
    have reads': "\<And>i v. map_sum (\<lambda>e. ()) id (fst (getWorkItem client (Some i) v))
                = (case remote i of None \<Rightarrow> Inl () | Some r \<Rightarrow> Inr r)"
      using reads by blast
    have lv: "nat (maxDepth ((rootContext options)\<lparr>filterTag := None, filterType := None\<rparr>) + 1
               - currentDepth ((rootContext options)\<lparr>filterTag := None, filterType := None\<rparr>))
        = nat ((case io_maxDepth options of None \<Rightarrow> 10 | Some d \<Rightarrow> d) + 1)"
      by (simp add: rootContext_def)
    have sk: "map_option skeleton t
        = remoteTree remote (importedProps stripHtml config)
            (nat ((case io_maxDepth options of None \<Rightarrow> 10 | Some d \<Rightarrow> d) + 1)) parentId"
      using fetch_reads [OF reads', where ctx = "(rootContext options)\<lparr>filterTag := None, filterType := None\<rparr>"
          and stripHtml = stripHtml and i = parentId and config = config and results = "[]"
          and w = w] u
      unfolding lv by simp
    have k: "\<And>x. WorkItem (props x) ()
               (map skeleton
                  (filter (\<lambda>c. shouldIncludeItem (props c) (io_filterTag options)
                                 (io_filterType options)) (children x)))
          = keepMatchingChildren (io_filterTag options) (io_filterType options) (skeleton x)"
    proof -
      fix x :: "'b WorkItem"
      show "WorkItem (props x) ()
               (map skeleton
                  (filter (\<lambda>c. shouldIncludeItem (props c) (io_filterTag options)
                                 (io_filterType options)) (children x)))
          = keepMatchingChildren (io_filterTag options) (io_filterType options) (skeleton x)"
        by (cases x) (simp add: keepMatchingChildren_def filter_map o_def skeleton_props)
    qed
    show ?thesis
      unfolding importFromAdo_def fetch_root [OF r, of client stripHtml parentId config "[]" w] u f
        sk [symmetric]
      by (cases t) (simp_all add: k)
  qed
  show ?thesis using rel ab by blast
qed


theorem importFromAdo_filters_direct_children_witness:
  "(\<forall>i v. map_sum (\<lambda>e. ()) id
            (fst (getWorkItem (mockClient importRemote (mockAdoResponse 1 1 ''x'')) (Some i) v))
          = (case importRemote i of None \<Rightarrow> Inl () | Some r \<Rightarrow> Inr r))
   \<and> map_sum id (\<lambda>(doc, results). map skeleton (workItems doc))
        (fst (importFromAdo (mockClient importRemote (mockAdoResponse 1 1 ''x'')) id 1 mockConfig
                frontendOnly []))
     = Inr [WorkItem (importedProps id mockConfig (the (importRemote 1))) ()
              [WorkItem (importedProps id mockConfig (the (importRemote 2))) ()
                 [WorkItem (importedProps id mockConfig (the (importRemote 4))) () []]]]
   \<and> tags (importedProps id mockConfig (the (importRemote 2))) = Some [''frontend'']
   \<and> tags (importedProps id mockConfig (the (importRemote 3))) = Some [''backend'']
   \<and> tags (importedProps id mockConfig (the (importRemote 4))) = None"
  using importFromAdo_filters_direct_children
    [where client = "mockClient importRemote (mockAdoResponse 1 1 ''x'')"
       and remote = importRemote and stripHtml = id and parentId = 1 and config = mockConfig
       and options = frontendOnly and w = "[]"]
  by (simp add: getWorkItem_def mockClient_def frontendOnly_def importRemote_def
        eval_nat_numeral getChildIds_def matchWorkItemId_def LINK_CHILD_def isDigit_def
        digitsValue_def map_filter_simps keepMatchingChildren_def shouldIncludeItem_def
        importedProps_def transformAdoToYaml_def mockAdoResponse_def truthyStr_def
        truthyString_def truthyOptString_def truthyOptNum_def toLowerCase_def toLowerChar_def
        trim_def isSpace_def Let_def)

end
